theory Spec2Isabelle
  imports Main "HOL-Library.Word" "HOL-Library.Char_ord" "HOL-Library.List_Lexorder"
begin

section \<open>Mirror states and their text form (main.go, lines 17-57)\<close>

text \<open>
  \<^verbatim>\<open>type MirrorState int\<close> with \<^verbatim>\<open>MirrorFresh = iota + 1\<close> and \<^verbatim>\<open>MirrorReady\<close>: the
  constants are 1 and 2, and the zero value 0 of the type is neither of them. No
  arithmetic is done on a state, so the Go \<^verbatim>\<open>int\<close> is read as an integer.
  A Go \<^verbatim>\<open>error\<close> built by \<^verbatim>\<open>fmt.Errorf\<close> is its message.
\<close>

type_synonym MirrorState = int
type_synonym error = string

definition MirrorFresh :: MirrorState where
  "MirrorFresh = 1"

definition MirrorReady :: MirrorState where
  "MirrorReady = 2"

definition MirrorState_String :: "MirrorState \<Rightarrow> string" where
  "MirrorState_String ms =
     (if ms = MirrorFresh then ''Fresh''
      else if ms = MirrorReady then ''Ready''
      else ''Unknown'')"

definition ParseMirrorState :: "string \<Rightarrow> error + MirrorState" where
  "ParseMirrorState str =
     (if str = ''Fresh'' then Inr MirrorFresh
      else if str = ''Ready'' then Inr MirrorReady
      else Inl (''invalid MirrorState: '' @ str))"

text \<open>\<^verbatim>\<open>MarshalText\<close> never returns an error: its result is the text alone.\<close>

definition MarshalText :: "MirrorState \<Rightarrow> error + string" where
  "MarshalText ms = Inr (MirrorState_String ms)"

text \<open>
  \<^verbatim>\<open>UnmarshalText\<close> has a pointer receiver: the model takes the value the receiver
  holds and returns the value it holds afterwards, with the error (\<open>None\<close> is \<^verbatim>\<open>nil\<close>).
\<close>

definition UnmarshalText :: "MirrorState \<Rightarrow> string \<Rightarrow> MirrorState \<times> error option" where
  "UnmarshalText ms bs =
     (case ParseMirrorState bs of
        Inl err \<Rightarrow> (ms, Some err)
      | Inr val \<Rightarrow> (val, None))"

section \<open>The data model (main.go, lines 59-83)\<close>

text \<open>
  A \<^verbatim>\<open>time.Time\<close> is read as the instant it denotes, in nanoseconds since the zero
  \<^verbatim>\<open>Time\<close>; its location and its monotonic clock reading are not represented, so
  equality of two times is \<^verbatim>\<open>Time.Equal\<close>. A \<^verbatim>\<open>time.Duration\<close> is an \<^verbatim>\<open>int64\<close> count
  of nanoseconds, read by \<open>sint\<close>. A Go map is a finite map, or \<^verbatim>\<open>nil\<close> (\<open>None\<close>):
  reading a \<^verbatim>\<open>nil\<close> map finds nothing, writing to it panics.
\<close>

type_synonym Time = int
type_synonym Duration = "64 word"

record Mirror =
  Url :: string
  LastUpdate :: Time
  State :: MirrorState

record State =
  StoragePath :: string
  UpdateDelta :: Duration
  Mirrors :: "(string \<rightharpoonup> Mirror) option"

record Mirrorer =
  state :: State
  dbPath :: string

text \<open>The zero value of \<^verbatim>\<open>Mirror\<close>, which a lookup of an absent map key returns.\<close>

definition zero_Mirror :: Mirror where
  "zero_Mirror = \<lparr>Url = '''', LastUpdate = 0, State = 0\<rparr>"

definition Minute :: Duration where
  "Minute = 60000000000"

definition NewState :: State where
  "NewState = \<lparr>StoragePath = '''', UpdateDelta = 5 * Minute, Mirrors = Some Map.empty\<rparr>"

text \<open>\<^verbatim>\<open>v, exists := m[k]\<close> and \<^verbatim>\<open>v := m[k]\<close> on a map that may be \<^verbatim>\<open>nil\<close>.\<close>

definition map_lookup :: "(string \<rightharpoonup> Mirror) option \<Rightarrow> string \<Rightarrow> Mirror option" where
  "map_lookup ms k = (case ms of None \<Rightarrow> None | Some mp \<Rightarrow> mp k)"

definition map_index :: "(string \<rightharpoonup> Mirror) option \<Rightarrow> string \<Rightarrow> Mirror" where
  "map_index ms k = (case map_lookup ms k of None \<Rightarrow> zero_Mirror | Some mi \<Rightarrow> mi)"

section \<open>UTF-8, as package unicode/utf8 reads it\<close>

text \<open>
  The lead byte of a sequence fixes its width and the range its second byte must lie
  in (the tables \<^verbatim>\<open>first\<close> and \<^verbatim>\<open>acceptRanges\<close>); every further byte lies in 80-BF.
\<close>

definition acceptRange :: "nat \<Rightarrow> (nat \<times> nat \<times> nat) option" where
  "acceptRange b =
     (if 0xC2 \<le> b \<and> b \<le> 0xDF then Some (2, 0x80, 0xBF)
      else if b = 0xE0 then Some (3, 0xA0, 0xBF)
      else if 0xE1 \<le> b \<and> b \<le> 0xEC then Some (3, 0x80, 0xBF)
      else if b = 0xED then Some (3, 0x80, 0x9F)
      else if b = 0xEE \<or> b = 0xEF then Some (3, 0x80, 0xBF)
      else if b = 0xF0 then Some (4, 0x90, 0xBF)
      else if 0xF1 \<le> b \<and> b \<le> 0xF3 then Some (4, 0x80, 0xBF)
      else if b = 0xF4 then Some (4, 0x80, 0x8F)
      else None)"

fun continuation :: "nat \<Rightarrow> string \<Rightarrow> bool" where
  "continuation 0 cs = True"
| "continuation (Suc n) [] = False"
| "continuation (Suc n) (c # cs) =
     (0x80 \<le> (of_char c :: nat) \<and> (of_char c :: nat) \<le> 0xBF \<and> continuation n cs)"

text \<open>
  \<^verbatim>\<open>utf8.DecodeRuneInString\<close> on a non-empty string, reduced to the width it returns:
  \<open>None\<close> stands for \<^verbatim>\<open>(RuneError, 1)\<close>, a byte that starts no well-formed sequence.
\<close>

definition rune_width :: "string \<Rightarrow> nat option" where
  "rune_width s =
     (case s of
        [] \<Rightarrow> None
      | c # cs \<Rightarrow>
          if (of_char c :: nat) < 0x80 then Some 1
          else (case acceptRange (of_char c) of
                  None \<Rightarrow> None
                | Some (n, lo, hi) \<Rightarrow>
                    (case cs of
                       [] \<Rightarrow> None
                     | d # ds \<Rightarrow>
                         if lo \<le> (of_char d :: nat) \<and> (of_char d :: nat) \<le> hi
                            \<and> continuation (n - 2) ds
                         then Some n else None)))"

text \<open>
  \<^verbatim>\<open>utf8.ValidString\<close>, and the coercion to valid UTF-8 that encoding/json applies to
  every string it writes or reads: each byte that starts no well-formed sequence is
  replaced by U+FFFD (EF BF BD). The first argument counts the bytes still to copy of
  the sequence that is being read.
\<close>

fun valid_from :: "nat \<Rightarrow> string \<Rightarrow> bool" where
  "valid_from k [] = True"
| "valid_from (Suc k) (c # cs) = valid_from k cs"
| "valid_from 0 (c # cs) =
     (case rune_width (c # cs) of
        None \<Rightarrow> False
      | Some n \<Rightarrow> valid_from (n - 1) cs)"

definition ValidString :: "string \<Rightarrow> bool" where
  "ValidString s = valid_from 0 s"

fun coerce_from :: "nat \<Rightarrow> string \<Rightarrow> string" where
  "coerce_from k [] = []"
| "coerce_from (Suc k) (c # cs) = c # coerce_from k cs"
| "coerce_from 0 (c # cs) =
     (case rune_width (c # cs) of
        None \<Rightarrow> [CHR 0xEF, CHR 0xBF, CHR 0xBD] @ coerce_from 0 cs
      | Some n \<Rightarrow> c # coerce_from (n - 1) cs)"

definition utf8_coerce :: "string \<Rightarrow> string" where
  "utf8_coerce s = coerce_from 0 s"

section \<open>The snapshot as a JSON document (encoding/json on the types of main.go)\<close>

text \<open>
  The file holds one JSON value. The text layer of encoding/json (quoting, escapes,
  indentation, number syntax) is not modelled: a document is the tree it denotes. A
  string of the tree is \<open>JStr\<close> with its content, except that a string in the place of
  a \<^verbatim>\<open>last_update\<close> value that is an RFC 3339 timestamp is \<open>JTime\<close> with the instant
  it denotes (\<^verbatim>\<open>Time.MarshalJSON\<close> writes it with nanoseconds). \<open>JNum\<close> is an integer
  literal. The texts of errors raised inside the libraries are abbreviated.
\<close>

datatype json =
    JNull
  | JBool bool
  | JNum int
  | JStr string
  | JTime Time
  | JArr "json list"
  | JObj "(string \<times> json) list"

definition type_mismatch :: error where
  "type_mismatch = ''json: cannot unmarshal value into Go value''"

subsection \<open>Encoding (what \<^verbatim>\<open>encoder.Encode(m.state)\<close> writes, line 95)\<close>

text \<open>
  Struct fields are written in declaration order under their \<^verbatim>\<open>json\<close> tags; a string
  is coerced to valid UTF-8; \<^verbatim>\<open>MirrorState\<close> implements \<^verbatim>\<open>encoding.TextMarshaler\<close>, so a
  state is written as the string \<^verbatim>\<open>MarshalText\<close> returns; a \<^verbatim>\<open>nil\<close> map is written as
  \<^verbatim>\<open>null\<close>, any other map (a Go map is finite) as an object whose keys are sorted as
  byte strings. \<^verbatim>\<open>Time.MarshalJSON\<close> fails on a year outside 0 to 9999; with times as
  instants that failure is left to the outcome of \<^verbatim>\<open>Encode\<close> that the environment
  gives (\<open>encode_err\<close> below).
\<close>

definition encode_Mirror :: "Mirror \<Rightarrow> error + json" where
  "encode_Mirror mi =
     (case MarshalText (State mi) of
        Inl err \<Rightarrow> Inl err
      | Inr txt \<Rightarrow>
          Inr (JObj [(''url'', JStr (utf8_coerce (Url mi))),
                     (''last_update'', JTime (LastUpdate mi)),
                     (''state'', JStr (utf8_coerce txt))]))"

fun encode_entries :: "(string \<rightharpoonup> Mirror) \<Rightarrow> string list \<Rightarrow> error + (string \<times> json) list" where
  "encode_entries mp [] = Inr []"
| "encode_entries mp (k # ks) =
     (case mp k of
        None \<Rightarrow> encode_entries mp ks
      | Some mi \<Rightarrow>
          (case encode_Mirror mi of
             Inl err \<Rightarrow> Inl err
           | Inr j \<Rightarrow>
               (case encode_entries mp ks of
                  Inl err \<Rightarrow> Inl err
                | Inr js \<Rightarrow> Inr ((utf8_coerce k, j) # js))))"

definition encode_Mirrors :: "(string \<rightharpoonup> Mirror) option \<Rightarrow> error + json" where
  "encode_Mirrors ms =
     (case ms of
        None \<Rightarrow> Inr JNull
      | Some mp \<Rightarrow> map_sum id JObj (encode_entries mp (sorted_list_of_set (dom mp))))"

definition encode_State :: "State \<Rightarrow> error + json" where
  "encode_State st =
     (case encode_Mirrors (Mirrors st) of
        Inl err \<Rightarrow> Inl err
      | Inr j \<Rightarrow>
          Inr (JObj [(''storage_path'', JStr (utf8_coerce (StoragePath st))),
                     (''update_delta'', JNum (sint (UpdateDelta st))),
                     (''mirrors'', j)]))"

subsection \<open>Decoding (what \<^verbatim>\<open>decoder.Decode(&state)\<close> stores, line 123)\<close>

text \<open>
  An object key names the struct field whose tag it equals or, failing that, the
  first field whose tag it equals after case folding (\<^verbatim>\<open>foldName\<close>: ASCII letters to
  upper case, U+017F to S, U+212A to K); a key that names no field is skipped.
\<close>

definition upper :: "char \<Rightarrow> char" where
  "upper c =
     (case map_of (zip ''abcdefghijklmnopqrstuvwxyz'' ''ABCDEFGHIJKLMNOPQRSTUVWXYZ'') c of
        None \<Rightarrow> c
      | Some u \<Rightarrow> u)"

fun foldName :: "string \<Rightarrow> string" where
  "foldName (c # d # e # cs) =
     (if c = CHR 0xE2 \<and> d = CHR 0x84 \<and> e = CHR 0xAA then CHR ''K'' # foldName cs
      else if c = CHR 0xC5 \<and> d = CHR 0xBF then CHR ''S'' # foldName (e # cs)
      else upper c # foldName (d # e # cs))"
| "foldName [c, d] =
     (if c = CHR 0xC5 \<and> d = CHR 0xBF then [CHR ''S''] else upper c # foldName [d])"
| "foldName [c] = [upper c]"
| "foldName [] = []"

definition field_of :: "string list \<Rightarrow> string \<Rightarrow> string option" where
  "field_of names key =
     (if key \<in> set names then Some key
      else find (\<lambda>f. foldName f = foldName key) names)"

definition Mirror_fields :: "string list" where
  "Mirror_fields = [''url'', ''last_update'', ''state'']"

definition State_fields :: "string list" where
  "State_fields = [''storage_path'', ''update_delta'', ''mirrors'']"

text \<open>
  Storing a JSON value into a field that holds \<open>cur\<close>. \<^verbatim>\<open>null\<close> leaves a string, an
  integer, a \<^verbatim>\<open>time.Time\<close> and a \<^verbatim>\<open>MirrorState\<close> as they are and sets a map to \<^verbatim>\<open>nil\<close>;
  a value of the wrong kind is an error. A number must fit the \<^verbatim>\<open>int64\<close> it is stored
  in. \<^verbatim>\<open>MirrorState\<close> implements \<^verbatim>\<open>encoding.TextUnmarshaler\<close>, so a string is handed to
  \<^verbatim>\<open>UnmarshalText\<close>.
\<close>

definition decode_string :: "json \<Rightarrow> string \<Rightarrow> error + string" where
  "decode_string j cur =
     (case j of
        JNull \<Rightarrow> Inr cur
      | JStr s \<Rightarrow> Inr (utf8_coerce s)
      | _ \<Rightarrow> Inl type_mismatch)"

definition decode_int64 :: "json \<Rightarrow> 64 word \<Rightarrow> error + 64 word" where
  "decode_int64 j cur =
     (case j of
        JNull \<Rightarrow> Inr cur
      | JNum n \<Rightarrow>
          if - (2 ^ 63) \<le> n \<and> n < 2 ^ 63 then Inr (word_of_int n) else Inl type_mismatch
      | _ \<Rightarrow> Inl type_mismatch)"

definition decode_Time :: "json \<Rightarrow> Time \<Rightarrow> error + Time" where
  "decode_Time j cur =
     (case j of
        JNull \<Rightarrow> Inr cur
      | JTime t \<Rightarrow> Inr t
      | _ \<Rightarrow> Inl ''Time.UnmarshalJSON: input is not a JSON string in RFC 3339 format'')"

definition decode_MirrorState :: "json \<Rightarrow> MirrorState \<Rightarrow> error + MirrorState" where
  "decode_MirrorState j cur =
     (case j of
        JNull \<Rightarrow> Inr cur
      | JStr s \<Rightarrow>
          (case UnmarshalText cur (utf8_coerce s) of
             (ms, None) \<Rightarrow> Inr ms
           | (ms, Some err) \<Rightarrow> Inl err)
      | _ \<Rightarrow> Inl type_mismatch)"

text \<open>
  The members of an object are stored one after the other, in the order of the
  document, so a later duplicate of a key overwrites an earlier one. Decoding stops
  here at the first value that cannot be stored; encoding/json reads on and reports
  an error at the end, which is the same to \<^verbatim>\<open>NewMirrorer\<close>: it returns the error
  and drops the state.
\<close>

fun decode_fields ::
  "string list \<Rightarrow> (string \<Rightarrow> json \<Rightarrow> 'a \<Rightarrow> error + 'a) \<Rightarrow> (string \<times> json) list \<Rightarrow> 'a \<Rightarrow> error + 'a" where
  "decode_fields names store [] x = Inr x"
| "decode_fields names store ((k, v) # kvs) x =
     (case field_of names (utf8_coerce k) of
        None \<Rightarrow> decode_fields names store kvs x
      | Some f \<Rightarrow>
          (case store f v x of
             Inl err \<Rightarrow> Inl err
           | Inr x' \<Rightarrow> decode_fields names store kvs x'))"

definition decode_struct ::
  "string list \<Rightarrow> (string \<Rightarrow> json \<Rightarrow> 'a \<Rightarrow> error + 'a) \<Rightarrow> json \<Rightarrow> 'a \<Rightarrow> error + 'a" where
  "decode_struct names store j x =
     (case j of
        JNull \<Rightarrow> Inr x
      | JObj kvs \<Rightarrow> decode_fields names store kvs x
      | _ \<Rightarrow> Inl type_mismatch)"

definition store_Mirror_field :: "string \<Rightarrow> json \<Rightarrow> Mirror \<Rightarrow> error + Mirror" where
  "store_Mirror_field f v mi =
     (if f = ''url'' then map_sum id (\<lambda>s. mi\<lparr>Url := s\<rparr>) (decode_string v (Url mi))
      else if f = ''last_update'' then
        map_sum id (\<lambda>t. mi\<lparr>LastUpdate := t\<rparr>) (decode_Time v (LastUpdate mi))
      else map_sum id (\<lambda>s. mi\<lparr>State := s\<rparr>) (decode_MirrorState v (State mi)))"

definition decode_Mirror :: "json \<Rightarrow> Mirror \<Rightarrow> error + Mirror" where
  "decode_Mirror j mi = decode_struct Mirror_fields store_Mirror_field j mi"

text \<open>
  An object is stored into a map entry by entry: each value is decoded into a zero
  \<^verbatim>\<open>Mirror\<close> and put under its key; the entries the map already has are kept, and a
  \<^verbatim>\<open>nil\<close> map is replaced by a new one first.
\<close>

fun decode_entries :: "(string \<times> json) list \<Rightarrow> (string \<rightharpoonup> Mirror) \<Rightarrow> error + (string \<rightharpoonup> Mirror)" where
  "decode_entries [] mp = Inr mp"
| "decode_entries ((k, v) # kvs) mp =
     (case decode_Mirror v zero_Mirror of
        Inl err \<Rightarrow> Inl err
      | Inr mi \<Rightarrow> decode_entries kvs (mp(utf8_coerce k \<mapsto> mi)))"

definition decode_Mirrors ::
  "json \<Rightarrow> (string \<rightharpoonup> Mirror) option \<Rightarrow> error + (string \<rightharpoonup> Mirror) option" where
  "decode_Mirrors j cur =
     (case j of
        JNull \<Rightarrow> Inr None
      | JObj kvs \<Rightarrow>
          map_sum id Some
            (decode_entries kvs (case cur of None \<Rightarrow> Map.empty | Some mp \<Rightarrow> mp))
      | _ \<Rightarrow> Inl type_mismatch)"

definition store_State_field :: "string \<Rightarrow> json \<Rightarrow> State \<Rightarrow> error + State" where
  "store_State_field f v st =
     (if f = ''storage_path'' then
        map_sum id (\<lambda>s. st\<lparr>StoragePath := s\<rparr>) (decode_string v (StoragePath st))
      else if f = ''update_delta'' then
        map_sum id (\<lambda>d. st\<lparr>UpdateDelta := d\<rparr>) (decode_int64 v (UpdateDelta st))
      else map_sum id (\<lambda>ms. st\<lparr>Mirrors := ms\<rparr>) (decode_Mirrors v (Mirrors st)))"

definition decode_State :: "json \<Rightarrow> State \<Rightarrow> error + State" where
  "decode_State j st = decode_struct State_fields store_State_field j st"

section \<open>The snapshot file (main.go, lines 85-134)\<close>

text \<open>
  A disk maps a path to the file there. A file either starts with a complete JSON
  value (\<open>Doc\<close>, all that \<^verbatim>\<open>Decode\<close> reads) or does not (\<open>Broken\<close>: empty, truncated or
  not JSON). Paths are relative and cleaned, so \<^verbatim>\<open>./x\<close> is \<^verbatim>\<open>x\<close>.
  What the operating system and the random source decide during one call of
  \<^verbatim>\<open>updateDb\<close> is given to the call: the random part of the temporary name and, for
  each step, the error it fails with, if any.
\<close>

datatype content = Doc json | Broken

type_synonym disk = "string \<rightharpoonup> content"

record save_io =
  tmp_rand :: string
  create_err :: "error option"
  encode_err :: "error option"
  close_err :: "error option"
  rename_err :: "error option"

text \<open>
  \<^verbatim>\<open>filepath.Dir\<close> on the paths \<^verbatim>\<open>NewMirrorer\<close> admits (\<^verbatim>\<open>fs.ValidPath\<close>: no empty, \<^verbatim>\<open>.\<close>
  or \<^verbatim>\<open>..\<close> element): all before the last slash, or \<^verbatim>\<open>.\<close> when there is no slash.
  \<^verbatim>\<open>os.CreateTemp(dir, "looter.*.tmp")\<close> puts a random string in the place of the star.
\<close>

definition Dir :: "string \<Rightarrow> string" where
  "Dir path =
     (if CHR ''/'' \<in> set path
      then rev (tl (dropWhile (\<lambda>c. c \<noteq> CHR ''/'') (rev path)))
      else ''.'')"

definition temp_name :: "string \<Rightarrow> string \<Rightarrow> string" where
  "temp_name dir rand = (if dir = ''.'' then [] else dir @ ''/'') @ ''looter.'' @ rand @ ''.tmp''"

text \<open>
  \<^verbatim>\<open>updateDb\<close>: the disk afterwards and the error returned. \<^verbatim>\<open>CreateTemp\<close> opens the
  file with \<^verbatim>\<open>O_EXCL\<close>, so it never opens a file that exists. \<^verbatim>\<open>Encode\<close> fails when
  marshalling fails or when the write does, and leaves an incomplete temporary file.
\<close>

definition updateDb :: "save_io \<Rightarrow> Mirrorer \<Rightarrow> disk \<Rightarrow> disk \<times> error option" where
  "updateDb io m d =
     (let tmp = temp_name (Dir (dbPath m)) (tmp_rand io) in
      case (if d tmp \<noteq> None then Some ''file exists'' else create_err io) of
        Some err \<Rightarrow> (d, Some (''cannot create temporary state file: '' @ err))
      | None \<Rightarrow>
          (case (case encode_State (state m) of
                   Inl err \<Rightarrow> Inl err
                 | Inr j \<Rightarrow> (case encode_err io of Some err \<Rightarrow> Inl err | None \<Rightarrow> Inr j)) of
             Inl err \<Rightarrow>
               (d(tmp \<mapsto> Broken), Some (''cannot write temporary state file: '' @ err))
           | Inr j \<Rightarrow>
               (case close_err io of
                  Some err \<Rightarrow> (d(tmp \<mapsto> Doc j), Some (''failed to close temp file: '' @ err))
                | None \<Rightarrow>
                    (case rename_err io of
                       Some err \<Rightarrow>
                         (d(tmp \<mapsto> Doc j),
                          Some (''failed to move temp file to state file: '' @ err))
                     | None \<Rightarrow> ((d(tmp := None))(dbPath m \<mapsto> Doc j), None)))))"

text \<open>\<^verbatim>\<open>fs.ValidPath\<close>: valid UTF-8 and either \<^verbatim>\<open>.\<close> or slash-separated proper elements.\<close>

fun elements :: "string \<Rightarrow> string list" where
  "elements [] = [[]]"
| "elements (c # cs) =
     (if c = CHR ''/'' then [] # elements cs
      else (case elements cs of [] \<Rightarrow> [[c]] | e # es \<Rightarrow> (c # e) # es))"

definition ValidPath :: "string \<Rightarrow> bool" where
  "ValidPath name =
     (ValidString name \<and>
      (name = ''.'' \<or> list_all (\<lambda>elem. elem \<noteq> [] \<and> elem \<noteq> ''.'' \<and> elem \<noteq> ''..'') (elements name)))"

text \<open>
  \<^verbatim>\<open>NewMirrorer\<close>, lines 112-126: the state it reads, decoded into the value of
  \<^verbatim>\<open>NewState()\<close>. Opening fails here only when there is no file at the path.
\<close>

definition NewMirrorer_state :: "disk \<Rightarrow> string \<Rightarrow> error + State" where
  "NewMirrorer_state d path =
     (if \<not> ValidPath path then Inl (''invalid db path: '' @ [CHR 0x27] @ path @ [CHR 0x27])
      else (case d path of
              None \<Rightarrow> Inl (''failed to open db file: '' @ ''no such file or directory'')
            | Some Broken \<Rightarrow> Inl (''failed to decode db: '' @ ''invalid JSON'')
            | Some (Doc j) \<Rightarrow>
                (case decode_State j NewState of
                   Inl err \<Rightarrow> Inl (''failed to decode db: '' @ err)
                 | Inr st \<Rightarrow> Inr st)))"

text \<open>
  The whole of \<^verbatim>\<open>NewMirrorer\<close>: the mirrorer it returns and the disk it leaves (the
  error of its own \<^verbatim>\<open>updateDb\<close> is dropped). It also starts \<^verbatim>\<open>Run\<close> in a goroutine.
\<close>

definition NewMirrorer :: "save_io \<Rightarrow> disk \<Rightarrow> string \<Rightarrow> error + (Mirrorer \<times> disk)" where
  "NewMirrorer io d path =
     (case NewMirrorer_state d path of
        Inl err \<Rightarrow> Inl err
      | Inr st \<Rightarrow>
          (let m = \<lparr>state = st, dbPath = path\<rparr> in Inr (m, fst (updateDb io m d))))"

section \<open>The HTTP handler for add-mirror (main.go, lines 136-178)\<close>

text \<open>
  \<^verbatim>\<open>url.Values\<close> is a map from a key to its values. The response writer is what has
  been written to it: nothing yet (\<open>None\<close>), or a status and a body; \<^verbatim>\<open>http.Error\<close>
  writes the status and the message with a newline. A handler that returns without
  writing answers 200 with an empty body; a handler that panics answers nothing.
\<close>

type_synonym Values = "string \<rightharpoonup> string list"
type_synonym writer = "(nat \<times> string) option"

datatype 'a go = Return 'a | Panic string

datatype outcome = Replied nat string | Panicked string

definition Has :: "Values \<Rightarrow> string \<Rightarrow> bool" where
  "Has values key = (values key \<noteq> None)"

definition Get :: "Values \<Rightarrow> string \<Rightarrow> string" where
  "Get values key = (case values key of None \<Rightarrow> [] | Some [] \<Rightarrow> [] | Some (v # vs) \<Rightarrow> v)"

fun Join :: "string list \<Rightarrow> string \<Rightarrow> string" where
  "Join [] sep = []"
| "Join [a] sep = a"
| "Join (a # b # rest) sep = a @ sep @ Join (b # rest) sep"

definition http_Error :: "writer \<Rightarrow> string \<Rightarrow> nat \<Rightarrow> writer" where
  "http_Error w msg code = (case w of None \<Rightarrow> Some (code, msg @ [CHR 0x0A]) | Some r \<Rightarrow> Some r)"

definition finish :: "writer \<Rightarrow> outcome" where
  "finish w = (case w of None \<Rightarrow> Replied 200 [] | Some (code, body) \<Rightarrow> Replied code body)"

definition checkArgs :: "writer \<Rightarrow> Values \<Rightarrow> string list \<Rightarrow> writer \<times> bool" where
  "checkArgs w values args =
     (let missingArgs = filter (\<lambda>arg. \<not> Has values arg) args in
      if length missingArgs > 0
      then (http_Error w (''missing arguments: '' @ Join missingArgs '', '') 500, False)
      else (w, True))"

definition map_assign ::
  "(string \<rightharpoonup> Mirror) option \<Rightarrow> string \<Rightarrow> Mirror \<Rightarrow> (string \<rightharpoonup> Mirror) option go" where
  "map_assign ms k v =
     (case ms of
        None \<Rightarrow> Panic ''assignment to entry in nil map''
      | Some mp \<Rightarrow> Return (Some (mp(k \<mapsto> v))))"

text \<open>
  \<^verbatim>\<open>AddMirrorHandler\<close> reads and writes the map of the mirrorer it is a method of, and
  touches nothing else of the program but the disk. \<open>now\<close> is what \<^verbatim>\<open>time.Now()\<close> returns.
\<close>

definition AddMirrorHandler ::
  "Time \<Rightarrow> save_io \<Rightarrow> Values \<Rightarrow> Mirrorer \<Rightarrow> disk \<Rightarrow> outcome \<times> Mirrorer \<times> disk" where
  "AddMirrorHandler now io q m d =
     (case checkArgs None q [''name'', ''url''] of
        (w, False) \<Rightarrow> (finish w, m, d)
      | (w, True) \<Rightarrow>
          (let mirrorName = Get q ''name'';
               mirrorUrl = Get q ''url''
           in if map_lookup (Mirrors (state m)) mirrorName \<noteq> None
              then (finish (http_Error w
                       (''cannot add mirror '' @ [CHR 0x27] @ mirrorName @ [CHR 0x27]
                          @ '': already exists'') 500), m, d)
              else (case map_assign (Mirrors (state m)) mirrorName
                           \<lparr>Url = mirrorUrl, LastUpdate = now, State = MirrorFresh\<rparr> of
                      Panic msg \<Rightarrow> (Panicked msg, m, d)
                    | Return ms \<Rightarrow>
                        (let m' = m\<lparr>state := (state m)\<lparr>Mirrors := ms\<rparr>\<rparr> in
                         case updateDb io m' d of
                           (d', Some err) \<Rightarrow>
                             (finish (http_Error w (''failed to update db: '' @ err) 500), m', d')
                         | (d', None) \<Rightarrow> (finish w, m', d')))))"

section \<open>Git operations (main.go, lines 242-278)\<close>

text \<open>
  What \<^verbatim>\<open>cmd.Output()\<close> returns: no error, an \<^verbatim>\<open>*exec.ExitError\<close> (its text and the
  captured standard error), or an error of another type (the program was not found,
  say). The type assertion \<^verbatim>\<open>err.(*exec.ExitError)\<close> panics on the last.
  The operations are recorded by the calls they make on the storage tree, each with
  the storage path and the mirror name whose \<^verbatim>\<open>filepath.Join\<close> is the directory.
\<close>

datatype exec_result = ExecOk | ExitError string string | OtherError string

datatype command =
    RemoveAll string string
  | GitClone string string string
  | GitRemoteUpdate string string

record clone_io =
  remove_err :: "error option"
  clone_exec :: exec_result

definition gitCloneMirror ::
  "clone_io \<Rightarrow> string \<Rightarrow> string \<Rightarrow> string \<Rightarrow> command list \<times> error option go" where
  "gitCloneMirror io storagePath mirrorName mirrorUrl =
     (case remove_err io of
        Some err \<Rightarrow>
          ([RemoveAll storagePath mirrorName],
           Return (Some (''failed to clean target dir: '' @ err)))
      | None \<Rightarrow>
          ([RemoveAll storagePath mirrorName, GitClone mirrorUrl storagePath mirrorName],
           (case clone_exec io of
              ExecOk \<Rightarrow> Return None
            | ExitError err stderr \<Rightarrow>
                Return (Some (''mirror failed: '' @ err @ [CHR 0x0A] @ stderr @ [CHR 0x0A]))
            | OtherError err \<Rightarrow>
                Panic ''interface conversion: error is not *exec.ExitError'')))"

definition gitRemoteUpdate ::
  "exec_result \<Rightarrow> string \<Rightarrow> string \<Rightarrow> command list \<times> error option go" where
  "gitRemoteUpdate exec storagePath mirrorName =
     ([GitRemoteUpdate storagePath mirrorName],
      (case exec of
         ExecOk \<Rightarrow> Return None
       | ExitError err stderr \<Rightarrow>
           Return (Some (''update failed: '' @ err @ [CHR 0x0A] @ stderr @ [CHR 0x0A]))
       | OtherError err \<Rightarrow>
           Panic ''interface conversion: error is not *exec.ExitError''))"

section \<open>The scheduler (main.go, lines 193-240)\<close>

text \<open>
  What \<^verbatim>\<open>Run\<close> works on: the mirrorer, the disk, the calls made on the storage tree,
  the errors logged, the timer goroutines started (each with the name it will send
  and the time it sleeps until), and the panic that ended the goroutine, if any (a
  panic in \<^verbatim>\<open>Run\<close> is not recovered and ends the process).
\<close>

record proc =
  mirrorer :: Mirrorer
  disk :: disk
  commands :: "command list"
  logged :: "string list"
  sleepers :: "(string \<times> Time) list"
  crashed :: "string option"

text \<open>
  What the environment decides during one iteration of a loop of \<^verbatim>\<open>Run\<close>: the outcome
  of the git operation, the reading of \<^verbatim>\<open>time.Now()\<close>, the outcomes of \<^verbatim>\<open>updateDb\<close>.
\<close>

record run_io =
  clone_io :: clone_io
  update_exec :: exec_result
  now :: Time
  save_io :: save_io

definition Time_Add :: "Time \<Rightarrow> Duration \<Rightarrow> Time" where
  "Time_Add t d = t + sint d"

text \<open>
  The body of the first loop (lines 195-205), for the key \<open>mirrorName\<close> of the range; a
  key the map does not hold is not visited. The error of the clone is logged and the
  statements after the \<^verbatim>\<open>if\<close> follow in either case.
\<close>

definition catchup_body :: "run_io \<Rightarrow> string \<Rightarrow> proc \<Rightarrow> proc" where
  "catchup_body io mirrorName p =
     (if crashed p \<noteq> None then p
      else (case map_lookup (Mirrors (state (mirrorer p))) mirrorName of
        None \<Rightarrow> p
      | Some mirror \<Rightarrow>
          if State mirror = MirrorFresh then
            (case gitCloneMirror (clone_io io) (StoragePath (state (mirrorer p)))
                    mirrorName (Url mirror) of
               (cmds, Panic msg) \<Rightarrow> p\<lparr>commands := commands p @ cmds, crashed := Some msg\<rparr>
             | (cmds, Return err) \<Rightarrow>
                 (let mirror' = mirror\<lparr>State := MirrorReady, LastUpdate := now io\<rparr> in
                  case map_assign (Mirrors (state (mirrorer p))) mirrorName mirror' of
                    Panic msg \<Rightarrow>
                      p\<lparr>commands := commands p @ cmds,
                        logged := logged p @ (case err of None \<Rightarrow> [] | Some e \<Rightarrow> [e]),
                        crashed := Some msg\<rparr>
                  | Return ms \<Rightarrow>
                      (let m' = (mirrorer p)\<lparr>state := (state (mirrorer p))\<lparr>Mirrors := ms\<rparr>\<rparr>;
                           (d', err') = updateDb (save_io io) m' (disk p)
                       in p\<lparr>mirrorer := m', disk := d',
                            commands := commands p @ cmds,
                            logged := logged p @ (case err of None \<Rightarrow> [] | Some e \<Rightarrow> [e])
                                        @ (case err' of None \<Rightarrow> [] | Some e \<Rightarrow> [e])\<rparr>)))
          else p))"

text \<open>
  A range over a map visits its keys in an order the runtime chooses: the order and
  what the environment decides at each key are given to the loop.
\<close>

fun catchup :: "(string \<Rightarrow> run_io) \<Rightarrow> string list \<Rightarrow> proc \<Rightarrow> proc" where
  "catchup env [] p = p"
| "catchup env (mirrorName # order) p = catchup env order (catchup_body (env mirrorName) mirrorName p)"

text \<open>
  The body of the second loop (lines 209-216): the goroutine started for a Ready
  mirror holds the name and \<^verbatim>\<open>nextUpdateTime\<close> of its own iteration (the loop
  variables of a \<^verbatim>\<open>for\<close> statement are per iteration, as from Go 1.22).
\<close>

definition arm_body :: "string \<Rightarrow> proc \<Rightarrow> proc" where
  "arm_body mirrorName p =
     (if crashed p \<noteq> None then p
      else (case map_lookup (Mirrors (state (mirrorer p))) mirrorName of
        None \<Rightarrow> p
      | Some mirror \<Rightarrow>
          if State mirror = MirrorReady then
            (let nextUpdateTime = Time_Add (LastUpdate mirror) (UpdateDelta (state (mirrorer p)))
             in p\<lparr>sleepers := sleepers p @ [(mirrorName, nextUpdateTime)]\<rparr>)
          else p))"

fun arm :: "string list \<Rightarrow> proc \<Rightarrow> proc" where
  "arm [] p = p"
| "arm (mirrorName # order) p = arm order (arm_body mirrorName p)"

text \<open>
  One iteration of the event loop (lines 220-238), for the name received from the
  channel.
\<close>

definition loop_body :: "run_io \<Rightarrow> string \<Rightarrow> proc \<Rightarrow> proc" where
  "loop_body io mirrorName p =
     (if crashed p \<noteq> None then p
      else (let mirror = map_index (Mirrors (state (mirrorer p))) mirrorName in
        if State mirror = MirrorReady then
          (case gitRemoteUpdate (update_exec io) (StoragePath (state (mirrorer p))) mirrorName of
             (cmds, Panic msg) \<Rightarrow> p\<lparr>commands := commands p @ cmds, crashed := Some msg\<rparr>
           | (cmds, Return (Some err)) \<Rightarrow>
               p\<lparr>commands := commands p @ cmds,
                 logged := logged p @ [''failed to update mirror: '' @ err]\<rparr>
           | (cmds, Return None) \<Rightarrow>
               (let mirror' = mirror\<lparr>LastUpdate := now io\<rparr> in
                case map_assign (Mirrors (state (mirrorer p))) mirrorName mirror' of
                  Panic msg \<Rightarrow> p\<lparr>commands := commands p @ cmds, crashed := Some msg\<rparr>
                | Return ms \<Rightarrow>
                    (let m' = (mirrorer p)\<lparr>state := (state (mirrorer p))\<lparr>Mirrors := ms\<rparr>\<rparr>;
                         (d', err') = updateDb (save_io io) m' (disk p);
                         nextUpdateTime = Time_Add (LastUpdate mirror') (UpdateDelta (state m'))
                     in p\<lparr>mirrorer := m', disk := d',
                          commands := commands p @ cmds,
                          sleepers := sleepers p @ [(mirrorName, nextUpdateTime)]\<rparr>)))
        else p))"

text \<open>
  A timer goroutine (lines 212-215 and 233-236) reads the clock in \<^verbatim>\<open>time.Until\<close>,
  sleeps and then sends its name. \<^verbatim>\<open>Time.Sub\<close> saturates at the bounds of
  \<^verbatim>\<open>Duration\<close>; \<^verbatim>\<open>time.Sleep\<close> returns after at least the duration given, at once
  when it is not positive. \<open>timer_may_post start deadline t\<close>: a goroutine that read
  the clock at \<open>start\<close> can reach its send at \<open>t\<close>.
\<close>

definition Time_Sub :: "Time \<Rightarrow> Time \<Rightarrow> Duration" where
  "Time_Sub t u =
     (if t - u > 2 ^ 63 - 1 then word_of_int (2 ^ 63 - 1)
      else if t - u < - (2 ^ 63) then word_of_int (- (2 ^ 63))
      else word_of_int (t - u))"

definition time_Until :: "Time \<Rightarrow> Time \<Rightarrow> Duration" where
  "time_Until clock t = Time_Sub t clock"

definition Sleep_returns :: "Time \<Rightarrow> Duration \<Rightarrow> Time \<Rightarrow> bool" where
  "Sleep_returns start d t = (start + max 0 (sint d) \<le> t)"

definition timer_may_post :: "Time \<Rightarrow> Time \<Rightarrow> Time \<Rightarrow> bool" where
  "timer_may_post start deadline t = Sleep_returns start (time_Until start deadline) t"

section \<open>The goroutines of the program\<close>

text \<open>
  \<^verbatim>\<open>NewMirrorer\<close> starts \<^verbatim>\<open>Run\<close> in one goroutine (line 131); each timer is a goroutine
  of its own; net/http runs a handler in the goroutine of the connection it serves.
  They share the mirrorer and the disk. The channel \<^verbatim>\<open>messages\<close> is unbuffered: what
  it holds are the names of the timer goroutines that wait in their send.
  One step of the program is one of these:
  \<^item> \<open>Post i\<close>: the timer goroutine at position \<open>i\<close> of the sleepers wakes up and
    reaches its send (the time it does so is left open here);
  \<^item> \<open>Receive i io\<close>: \<^verbatim>\<open>Run\<close> receives the name at position \<open>i\<close> of the channel and
    runs one iteration of its event loop;
  \<^item> \<open>Serve t io q\<close>: the server runs \<^verbatim>\<open>AddMirrorHandler\<close> on a request with the
    query \<open>q\<close>.
  Nothing happens once \<^verbatim>\<open>Run\<close> has panicked, which ends the process. A step is
  taken as a whole: what the handler and \<^verbatim>\<open>Run\<close> do to the map when they run at the
  same time (they take no lock) is outside this model.
\<close>

record system =
  run :: proc
  channel :: "string list"

datatype step = Post nat | Receive nat run_io | Serve Time save_io Values

datatype goroutine = RunGoroutine | TimerGoroutine | HandlerGoroutine

definition goroutine_of :: "step \<Rightarrow> goroutine" where
  "goroutine_of e =
     (case e of
        Post i \<Rightarrow> TimerGoroutine
      | Receive i io \<Rightarrow> RunGoroutine
      | Serve t io q \<Rightarrow> HandlerGoroutine)"

definition do_step :: "step \<Rightarrow> system \<Rightarrow> system" where
  "do_step e s =
     (if crashed (run s) \<noteq> None then s
      else (case e of
        Post i \<Rightarrow>
          if i < length (sleepers (run s))
          then s\<lparr>run := (run s)\<lparr>sleepers := take i (sleepers (run s))
                                              @ drop (Suc i) (sleepers (run s))\<rparr>,
                 channel := channel s @ [fst (sleepers (run s) ! i)]\<rparr>
          else s
      | Receive i io \<Rightarrow>
          if i < length (channel s)
          then s\<lparr>run := loop_body io (channel s ! i) (run s),
                 channel := take i (channel s) @ drop (Suc i) (channel s)\<rparr>
          else s
      | Serve t io q \<Rightarrow>
          (case AddMirrorHandler t io q (mirrorer (run s)) (disk (run s)) of
             (out, m', d') \<Rightarrow> s\<lparr>run := (run s)\<lparr>mirrorer := m', disk := d'\<rparr>\<rparr>)))"

fun do_steps :: "step list \<Rightarrow> system \<Rightarrow> system" where
  "do_steps [] s = s"
| "do_steps (e # es) s = do_steps es (do_step e s)"

text \<open>The calls of \<^verbatim>\<open>git remote update\<close> made for a mirror, among the recorded calls.\<close>

definition updates_of :: "string \<Rightarrow> command list \<Rightarrow> command list" where
  "updates_of mirrorName cmds =
     filter (\<lambda>c. case c of GitRemoteUpdate sp n \<Rightarrow> n = mirrorName | _ \<Rightarrow> False) cmds"

section \<open>Snapshots, and the inputs of the examples\<close>

text \<open>
  The snapshots the round-trip law speaks of: the map, when there is one, is finite
  and every mirror in it is Fresh or Ready. \<open>strings_valid\<close>: the storage path, the
  names and the URLs are valid UTF-8.
\<close>

definition states_valid :: "State \<Rightarrow> bool" where
  "states_valid st =
     (case Mirrors st of
        None \<Rightarrow> True
      | Some mp \<Rightarrow>
          finite (dom mp) \<and>
          (\<forall>k mi. mp k = Some mi \<longrightarrow> State mi = MirrorFresh \<or> State mi = MirrorReady))"

definition strings_valid :: "State \<Rightarrow> bool" where
  "strings_valid st =
     (ValidString (StoragePath st) \<and>
      (case Mirrors st of
         None \<Rightarrow> True
       | Some mp \<Rightarrow> \<forall>k mi. mp k = Some mi \<longrightarrow> ValidString k \<and> ValidString (Url mi)))"

text \<open>A document omits a field of \<^verbatim>\<open>State\<close> when none of its keys names the field.\<close>

definition omits :: "json \<Rightarrow> string \<Rightarrow> bool" where
  "omits j f =
     (case j of
        JObj kvs \<Rightarrow> list_all (\<lambda>(k, v). field_of State_fields (utf8_coerce k) \<noteq> Some f) kvs
      | _ \<Rightarrow> True)"

definition io_ok :: save_io where
  "io_ok = \<lparr>tmp_rand = ''1'', create_err = None, encode_err = None, close_err = None,
            rename_err = None\<rparr>"

text \<open>A save whose \<^verbatim>\<open>Encode\<close> fails, and a disk that holds a committed snapshot.\<close>

definition io_encode_fails :: save_io where
  "io_encode_fails = io_ok\<lparr>encode_err := Some ''no space left on device''\<rparr>"

definition disk_committed :: disk where
  "disk_committed = [''db.json'' \<mapsto> Doc (JObj [(''storage_path'', JStr ''store'')])]"

definition repo1_url :: string where
  "repo1_url = ''https://example.com/repo1.git''"

text \<open>A registry with the one mirror \<^verbatim>\<open>repo1\<close>, in the state and with the time given.\<close>

definition m_repo1 :: "MirrorState \<Rightarrow> Time \<Rightarrow> Duration \<Rightarrow> Mirrorer" where
  "m_repo1 ms t delta =
     \<lparr>state = \<lparr>StoragePath = ''store'', UpdateDelta = delta,
                Mirrors = Some [''repo1'' \<mapsto> \<lparr>Url = repo1_url, LastUpdate = t, State = ms\<rparr>]\<rparr>,
      dbPath = ''db.json''\<rparr>"

definition p_repo1 :: "MirrorState \<Rightarrow> Time \<Rightarrow> Duration \<Rightarrow> proc" where
  "p_repo1 ms t delta =
     \<lparr>mirrorer = m_repo1 ms t delta, disk = Map.empty, commands = [], logged = [],
      sleepers = [], crashed = None\<rparr>"

text \<open>The request \<^verbatim>\<open>/api/add-mirror?name=repo1&url=https://example.com/repo1.git\<close>.\<close>

definition q_repo1 :: Values where
  "q_repo1 = [''name'' \<mapsto> [''repo1''], ''url'' \<mapsto> [repo1_url]]"

text \<open>
  A mirrorer whose map is \<^verbatim>\<open>nil\<close>, as \<^verbatim>\<open>NewMirrorer\<close> builds it from a file that holds
  \<^verbatim>\<open>{"mirrors": null}\<close>, and one with an empty map.
\<close>

definition m_nil :: Mirrorer where
  "m_nil = \<lparr>state = NewState\<lparr>Mirrors := None\<rparr>, dbPath = ''db.json''\<rparr>"

definition m_empty :: Mirrorer where
  "m_empty = \<lparr>state = NewState, dbPath = ''db.json''\<rparr>"

text \<open>
  A registry with one mirror whose name is the single byte FF, as the request
  \<^verbatim>\<open>/api/add-mirror?name=%ff&url=u\<close> registers it, and the state read back from the
  file written for it.
\<close>

definition m_ff :: Mirrorer where
  "m_ff =
     \<lparr>state = \<lparr>StoragePath = ''store'', UpdateDelta = 5 * Minute,
                Mirrors = Some [[CHR 0xFF] \<mapsto> \<lparr>Url = ''u'', LastUpdate = 7, State = MirrorFresh\<rparr>]\<rparr>,
      dbPath = ''db.json''\<rparr>"

definition st_fffd :: State where
  "st_fffd =
     \<lparr>StoragePath = ''store'', UpdateDelta = 5 * Minute,
      Mirrors = Some [[CHR 0xEF, CHR 0xBF, CHR 0xBD] \<mapsto>
                        \<lparr>Url = ''u'', LastUpdate = 7, State = MirrorFresh\<rparr>]\<rparr>"

text \<open>What the environment decides in the examples: the git operations and the time.\<close>

definition io_run :: "exec_result \<Rightarrow> Time \<Rightarrow> run_io" where
  "io_run r t =
     \<lparr>clone_io = \<lparr>remove_err = None, clone_exec = r\<rparr>, update_exec = r, now = t,
      save_io = io_ok\<rparr>"

definition exit_128 :: exec_result where
  "exit_128 = ExitError ''exit status 128'' ''fatal: repository not found''"

text \<open>
  The names of the timer goroutines alive: those asleep and those waiting in their
  send. \<open>is_Ready\<close>: the registry holds the name with a Ready mirror.
\<close>

definition timers_of :: "system \<Rightarrow> string list" where
  "timers_of s = map fst (sleepers (run s)) @ channel s"

definition is_Ready :: "proc \<Rightarrow> string \<Rightarrow> bool" where
  "is_Ready p mirrorName =
     (case map_lookup (Mirrors (state (mirrorer p))) mirrorName of
        None \<Rightarrow> False
      | Some mirror \<Rightarrow> State mirror = MirrorReady)"

text \<open>
  The program in its event loop with \<^verbatim>\<open>repo1\<close> Ready and the timer of \<^verbatim>\<open>repo1\<close> in its
  send, and the program with an empty registry.
\<close>

definition s_repo1 :: "Time \<Rightarrow> Duration \<Rightarrow> system" where
  "s_repo1 t delta = \<lparr>run = p_repo1 MirrorReady t delta, channel = [''repo1'']\<rparr>"

definition s_empty :: system where
  "s_empty = \<lparr>run = \<lparr>mirrorer = m_empty, disk = Map.empty, commands = [], logged = [],
                      sleepers = [], crashed = None\<rparr>,
              channel = []\<rparr>"

section \<open>Properties\<close>

text \<open>
  C10: for every valid mirror state \<open>s\<close> (Fresh or Ready), unmarshalling the text that
  \<^verbatim>\<open>MarshalText\<close> produces succeeds and stores \<open>s\<close>, whatever the receiver held; for
  every string other than "Fresh" and "Ready", \<^verbatim>\<open>ParseMirrorState\<close> and
  \<^verbatim>\<open>UnmarshalText\<close> return an error and \<^verbatim>\<open>UnmarshalText\<close> leaves the receiver as it
  was.
\<close>

theorem MirrorState_text_roundtrip:
  "(s = MirrorFresh \<or> s = MirrorReady \<longrightarrow>
      (\<exists>txt. MarshalText s = Inr txt \<and> UnmarshalText r txt = (s, None)))
   \<and> (str \<noteq> ''Fresh'' \<and> str \<noteq> ''Ready'' \<longrightarrow>
      (\<exists>e. ParseMirrorState str = Inl e)
      \<and> (\<exists>e. UnmarshalText r str = (r, Some e)))"
  by (auto simp: MarshalText_def UnmarshalText_def ParseMirrorState_def
      MirrorState_String_def MirrorFresh_def MirrorReady_def)

theorem MirrorState_text_roundtrip_witness:
  "(\<exists>txt. MarshalText MirrorReady = Inr txt \<and> UnmarshalText 0 txt = (MirrorReady, None))
   \<and> (\<exists>e. ParseMirrorState ''Unknown'' = Inl e)
   \<and> (\<exists>e. UnmarshalText MirrorFresh ''Unknown'' = (MirrorFresh, Some e))"
  using MirrorState_text_roundtrip [of MirrorReady 0 "''Unknown''"]
    MirrorState_text_roundtrip [of MirrorReady MirrorFresh "''Unknown''"]
  by simp

subsection \<open>Strings that are valid UTF-8 pass through encoding/json unchanged\<close>

lemma coerce_valid: "valid_from k s \<Longrightarrow> coerce_from k s = s"
  by (induction k s rule: valid_from.induct) (auto split: option.splits)

lemma utf8_coerce_valid: "ValidString s \<Longrightarrow> utf8_coerce s = s"
  by (simp add: ValidString_def utf8_coerce_def coerce_valid)

lemma coerce_tags:
  "utf8_coerce ''url'' = ''url''" "utf8_coerce ''last_update'' = ''last_update''"
  "utf8_coerce ''state'' = ''state''" "utf8_coerce ''storage_path'' = ''storage_path''"
  "utf8_coerce ''update_delta'' = ''update_delta''" "utf8_coerce ''mirrors'' = ''mirrors''"
  "utf8_coerce ''Fresh'' = ''Fresh''" "utf8_coerce ''Ready'' = ''Ready''"
  by (simp_all add: utf8_coerce_def rune_width_def)

lemma coerce_ff: "utf8_coerce [CHR 0xFF] = [CHR 0xEF, CHR 0xBF, CHR 0xBD]"
  by (simp add: utf8_coerce_def rune_width_def acceptRange_def)

lemma coerce_fffd: "utf8_coerce [CHR 0xEF, CHR 0xBF, CHR 0xBD] = [CHR 0xEF, CHR 0xBF, CHR 0xBD]"
  by (simp add: utf8_coerce_def rune_width_def acceptRange_def eval_nat_numeral)

lemma valid_examples:
  "ValidString ''store''" "ValidString ''repo1''" "ValidString repo1_url" "ValidString ''u''"
  by (simp_all add: ValidString_def rune_width_def repo1_url_def)

lemma ValidPath_db: "ValidPath ''db.json''"
  by (simp add: ValidPath_def ValidString_def rune_width_def)

subsection \<open>Field names\<close>

lemma Mirror_field_tags:
  "field_of Mirror_fields ''url'' = Some ''url''"
  "field_of Mirror_fields ''last_update'' = Some ''last_update''"
  "field_of Mirror_fields ''state'' = Some ''state''"
  by (simp_all add: field_of_def Mirror_fields_def)

lemma State_field_tags:
  "field_of State_fields ''storage_path'' = Some ''storage_path''"
  "field_of State_fields ''update_delta'' = Some ''update_delta''"
  "field_of State_fields ''mirrors'' = Some ''mirrors''"
  by (simp_all add: field_of_def State_fields_def)

lemma field_of_member: "field_of names k = Some f \<Longrightarrow> f \<in> set names"
  by (auto simp: field_of_def find_Some_iff split: if_splits)

subsection \<open>Decoding what was encoded\<close>

lemma decode_state_text:
  assumes "s = MirrorFresh \<or> s = MirrorReady"
  shows "decode_MirrorState (JStr (utf8_coerce (MirrorState_String s))) cur = Inr s"
  using assms
  by (auto simp: MirrorState_String_def coerce_tags decode_MirrorState_def UnmarshalText_def
      ParseMirrorState_def MirrorFresh_def MirrorReady_def)

lemma decode_encode_Mirror:
  assumes "ValidString (Url mi)" and "State mi = MirrorFresh \<or> State mi = MirrorReady"
  shows "\<exists>j. encode_Mirror mi = Inr j \<and> decode_Mirror j zero_Mirror = Inr mi"
proof -
  let ?j = "JObj [(''url'', JStr (utf8_coerce (Url mi))),
                  (''last_update'', JTime (LastUpdate mi)),
                  (''state'', JStr (utf8_coerce (MirrorState_String (State mi))))]"
  have enc: "encode_Mirror mi = Inr ?j"
    by (simp add: encode_Mirror_def MarshalText_def)
  have st: "decode_MirrorState (JStr (utf8_coerce (MirrorState_String (State mi)))) c
              = Inr (State mi)" for c
    using assms(2) by (rule decode_state_text)
  have "decode_Mirror ?j zero_Mirror = Inr mi"
    using assms(1)
    by (simp add: decode_Mirror_def decode_struct_def coerce_tags Mirror_field_tags
        store_Mirror_field_def decode_string_def decode_Time_def st utf8_coerce_valid
        zero_Mirror_def)
  with enc show ?thesis by blast
qed

lemma decode_encode_entries:
  assumes "\<forall>k \<in> set ks. \<exists>mi. mp k = Some mi \<and> ValidString k \<and> ValidString (Url mi)
             \<and> (State mi = MirrorFresh \<or> State mi = MirrorReady)"
  shows "\<exists>js. encode_entries mp ks = Inr js
     \<and> decode_entries js acc = Inr (\<lambda>k. if k \<in> set ks then mp k else acc k)"
  using assms
proof (induction ks arbitrary: acc)
  case Nil
  then show ?case by simp
next
  case (Cons k ks)
  then obtain mi where mi: "mp k = Some mi" "ValidString k" "ValidString (Url mi)"
    "State mi = MirrorFresh \<or> State mi = MirrorReady" by auto
  then obtain j where j: "encode_Mirror mi = Inr j" "decode_Mirror j zero_Mirror = Inr mi"
    using decode_encode_Mirror[of mi] by auto
  have "\<forall>k \<in> set ks. \<exists>mi. mp k = Some mi \<and> ValidString k \<and> ValidString (Url mi)
             \<and> (State mi = MirrorFresh \<or> State mi = MirrorReady)"
    using Cons.prems by simp
  from Cons.IH[OF this, of "acc(k \<mapsto> mi)"] obtain js where js:
    "encode_entries mp ks = Inr js"
    "decode_entries js (acc(k \<mapsto> mi))
       = Inr (\<lambda>k'. if k' \<in> set ks then mp k' else (acc(k \<mapsto> mi)) k')"
    by blast
  have eq: "(\<lambda>k'. if k' \<in> set ks then mp k' else (acc(k \<mapsto> mi)) k')
      = (\<lambda>k'. if k' \<in> set (k # ks) then mp k' else acc k')"
    using mi(1) by auto
  have "encode_entries mp (k # ks) = Inr ((k, j) # js)"
    using mi j js by (simp add: utf8_coerce_valid)
  moreover have "decode_entries ((k, j) # js) acc
      = Inr (\<lambda>k'. if k' \<in> set (k # ks) then mp k' else acc k')"
    using mi j js eq by (simp add: utf8_coerce_valid)
  ultimately show ?case by blast
qed

lemma decode_int64_sint: "decode_int64 (JNum (sint d)) cur = Inr d"
proof -
  have "- (2 ^ 63) \<le> sint d" "sint d < 2 ^ 63"
    using sint_ge[of d] sint_lt[of d] by simp_all
  then show ?thesis by (simp add: decode_int64_def)
qed

lemma decode_encode_Mirrors:
  assumes "states_valid st" and "strings_valid st"
  shows "\<exists>j. encode_Mirrors (Mirrors st) = Inr j
           \<and> decode_Mirrors j (Some Map.empty) = Inr (Mirrors st)"
proof (cases "Mirrors st")
  case None
  then show ?thesis by (simp add: encode_Mirrors_def decode_Mirrors_def)
next
  case (Some mp)
  let ?ks = "sorted_list_of_set (dom mp)"
  have fin: "finite (dom mp)" using assms(1) Some by (simp add: states_valid_def)
  then have ks: "set ?ks = dom mp" by simp
  have "\<forall>k \<in> set ?ks. \<exists>mi. mp k = Some mi \<and> ValidString k \<and> ValidString (Url mi)
             \<and> (State mi = MirrorFresh \<or> State mi = MirrorReady)"
    using assms Some ks by (auto simp: states_valid_def strings_valid_def)
  from decode_encode_entries[OF this, of Map.empty]
  obtain js where js: "encode_entries mp ?ks = Inr js"
    "decode_entries js Map.empty = Inr (\<lambda>k. if k \<in> set ?ks then mp k else None)"
    by blast
  have "(\<lambda>k. if k \<in> set ?ks then mp k else None) = mp"
    using ks by (auto simp: fun_eq_iff domIff)
  with js Some show ?thesis
    by (simp add: encode_Mirrors_def decode_Mirrors_def)
qed

lemma decode_encode_State:
  assumes "states_valid st" and "strings_valid st"
  shows "\<exists>j. encode_State st = Inr j \<and> decode_State j NewState = Inr st"
proof -
  from decode_encode_Mirrors[OF assms] obtain jm where
    jm: "encode_Mirrors (Mirrors st) = Inr jm"
      "decode_Mirrors jm (Some Map.empty) = Inr (Mirrors st)"
    by blast
  let ?j = "JObj [(''storage_path'', JStr (utf8_coerce (StoragePath st))),
                  (''update_delta'', JNum (sint (UpdateDelta st))),
                  (''mirrors'', jm)]"
  have enc: "encode_State st = Inr ?j" using jm(1) by (simp add: encode_State_def)
  have sp: "ValidString (StoragePath st)" using assms(2) by (simp add: strings_valid_def)
  have "decode_State ?j NewState = Inr st"
    using jm(2) sp
    by (simp add: decode_State_def decode_struct_def coerce_tags State_field_tags
        store_State_field_def decode_string_def decode_int64_sint utf8_coerce_valid
        NewState_def)
  with enc show ?thesis by blast
qed

subsection \<open>What \<^verbatim>\<open>updateDb\<close> does to the disk\<close>

lemma updateDb_success:
  assumes "snd (updateDb io m d) = None"
  shows "\<exists>j. encode_State (state m) = Inr j \<and> fst (updateDb io m d) (dbPath m) = Some (Doc j)"
  using assms
  by (auto simp: updateDb_def Let_def split: option.splits sum.splits if_splits)

lemma updateDb_success_iff:
  "snd (updateDb io m d) = None \<longleftrightarrow>
     d (temp_name (Dir (dbPath m)) (tmp_rand io)) = None \<and> create_err io = None
     \<and> (\<exists>j. encode_State (state m) = Inr j) \<and> encode_err io = None
     \<and> close_err io = None \<and> rename_err io = None"
  by (auto simp: updateDb_def Let_def split: option.splits sum.splits if_splits)

lemma updateDb_target_kept:
  assumes "d (dbPath m) \<noteq> None" and "snd (updateDb io m d) \<noteq> None"
  shows "fst (updateDb io m d) (dbPath m) = d (dbPath m)"
  using assms
  by (auto simp: updateDb_def Let_def split: option.splits sum.splits if_splits)

lemma updateDb_others:
  assumes "path \<noteq> dbPath m" and "fst (updateDb io m d) path \<noteq> d path"
  shows "path = temp_name (Dir (dbPath m)) (tmp_rand io)
     \<and> d (temp_name (Dir (dbPath m)) (tmp_rand io)) = None"
  using assms
  by (auto simp: updateDb_def Let_def split: option.splits sum.splits if_splits)

lemma Dir_temp_name:
  assumes "CHR ''/'' \<notin> set rand"
  shows "Dir (temp_name dir rand) = dir"
proof (cases "dir = ''.''")
  case True
  then show ?thesis using assms by (simp add: Dir_def temp_name_def)
next
  case False
  have "dropWhile (\<lambda>c. c \<noteq> CHR ''/'') (rev (''looter.'' @ rand @ ''.tmp'') @ CHR ''/'' # rev dir)
      = CHR ''/'' # rev dir"
    using assms by (subst dropWhile_append2) auto
  then show ?thesis using False by (simp add: Dir_def temp_name_def)
qed

lemma updateDb_io_ok:
  assumes "encode_State (state m) = Inr j" and "dbPath m = ''db.json''"
  shows "updateDb io_ok m Map.empty = ([''db.json'' \<mapsto> Doc j], None)"
  using assms by (simp add: updateDb_def io_ok_def)

subsection \<open>The round trip of a snapshot\<close>

lemma encode_m_ff:
  "encode_State (state m_ff) =
     Inr (JObj [(''storage_path'', JStr ''store''),
                (''update_delta'', JNum 300000000000),
                (''mirrors'', JObj [([CHR 0xEF, CHR 0xBF, CHR 0xBD],
                   JObj [(''url'', JStr ''u''), (''last_update'', JTime 7),
                         (''state'', JStr ''Fresh'')])])])"
  by (simp add: m_ff_def encode_State_def encode_Mirrors_def encode_Mirror_def MarshalText_def
      MirrorState_String_def coerce_ff coerce_tags utf8_coerce_valid valid_examples Minute_def)

lemma decode_m_ff:
  "decode_State (JObj [(''storage_path'', JStr ''store''),
                (''update_delta'', JNum 300000000000),
                (''mirrors'', JObj [([CHR 0xEF, CHR 0xBF, CHR 0xBD],
                   JObj [(''url'', JStr ''u''), (''last_update'', JTime 7),
                         (''state'', JStr ''Fresh'')])])]) NewState = Inr st_fffd"
  by (simp add: decode_State_def decode_struct_def coerce_tags State_field_tags
      store_State_field_def decode_string_def decode_int64_def decode_Mirrors_def
      decode_Mirror_def Mirror_field_tags store_Mirror_field_def decode_Time_def
      decode_MirrorState_def UnmarshalText_def ParseMirrorState_def zero_Mirror_def
      NewState_def st_fffd_def Minute_def coerce_fffd utf8_coerce_valid valid_examples)

text \<open>
  C3, as stated, fails: the mirror whose name is the byte FF is a Fresh mirror of a
  finite map; saving it succeeds, and the state loaded from the file written holds a
  mirror named U+FFFD instead.
\<close>

theorem save_load_roundtrip_counterexample:
  "states_valid (state m_ff)
   \<and> snd (updateDb io_ok m_ff Map.empty) = None
   \<and> NewMirrorer_state (fst (updateDb io_ok m_ff Map.empty)) (dbPath m_ff) = Inr st_fffd
   \<and> map_lookup (Mirrors (state m_ff)) [CHR 0xFF] \<noteq> None
   \<and> map_lookup (Mirrors st_fffd) [CHR 0xFF] = None
   \<and> st_fffd \<noteq> state m_ff"
proof -
  have a: "states_valid (state m_ff)"
    by (simp add: states_valid_def m_ff_def)
  have db: "dbPath m_ff = ''db.json''" by (simp add: m_ff_def)
  note u = updateDb_io_ok[OF encode_m_ff db]
  have b: "snd (updateDb io_ok m_ff Map.empty) = None" by (simp add: u)
  have c: "NewMirrorer_state (fst (updateDb io_ok m_ff Map.empty)) (dbPath m_ff) = Inr st_fffd"
    by (simp add: u db NewMirrorer_state_def ValidPath_db decode_m_ff)
  have d: "map_lookup (Mirrors (state m_ff)) [CHR 0xFF] \<noteq> None"
    and e: "map_lookup (Mirrors st_fffd) [CHR 0xFF] = None"
    by (simp_all add: m_ff_def st_fffd_def map_lookup_def)
  have f: "st_fffd \<noteq> state m_ff"
  proof
    assume "st_fffd = state m_ff"
    then have "map_lookup (Mirrors st_fffd) [CHR 0xFF]
        = map_lookup (Mirrors (state m_ff)) [CHR 0xFF]"
      by simp
    with d e show False by simp
  qed
  show ?thesis by (intro conjI a b c d e f)
qed

text \<open>
  C3, amended: for every snapshot whose map is finite with mirrors Fresh or Ready and
  whose storage path, mirror names and URLs are valid UTF-8, with any update interval
  and any timestamps, a successful \<^verbatim>\<open>updateDb\<close> leaves at the target path a document
  that decodes, from the defaults of \<^verbatim>\<open>NewState\<close>, to the state saved; so the load in
  \<^verbatim>\<open>NewMirrorer\<close> returns exactly that state.
\<close>

theorem save_load_roundtrip:
  assumes "states_valid (state m)" and "strings_valid (state m)"
    and "updateDb io m d = (d', None)"
  shows "(\<exists>j. d' (dbPath m) = Some (Doc j) \<and> decode_State j NewState = Inr (state m))
     \<and> (ValidPath (dbPath m) \<longrightarrow> NewMirrorer_state d' (dbPath m) = Inr (state m))"
proof -
  from updateDb_success[of io m d] assms(3) obtain j where
    j: "encode_State (state m) = Inr j" "d' (dbPath m) = Some (Doc j)" by auto
  from decode_encode_State[OF assms(1,2)] j(1)
  have "decode_State j NewState = Inr (state m)" by auto
  with j(2) show ?thesis by (simp add: NewMirrorer_state_def)
qed

theorem save_load_roundtrip_witness:
  "states_valid (state (m_repo1 MirrorReady 7 (- 500)))
   \<and> strings_valid (state (m_repo1 MirrorReady 7 (- 500)))
   \<and> snd (updateDb io_ok (m_repo1 MirrorReady 7 (- 500)) Map.empty) = None
   \<and> NewMirrorer_state (fst (updateDb io_ok (m_repo1 MirrorReady 7 (- 500)) Map.empty)) ''db.json''
       = Inr (state (m_repo1 MirrorReady 7 (- 500)))"
proof -
  let ?m = "m_repo1 MirrorReady 7 (- 500)"
  have sv: "states_valid (state ?m)"
    by (simp add: states_valid_def m_repo1_def)
  have tv: "strings_valid (state ?m)"
    by (simp add: strings_valid_def m_repo1_def valid_examples)
  have db: "dbPath ?m = ''db.json''" by (simp add: m_repo1_def)
  from decode_encode_State[OF sv tv] obtain j where "encode_State (state ?m) = Inr j" by blast
  from updateDb_io_ok[OF this db] have ok: "snd (updateDb io_ok ?m Map.empty) = None" by simp
  then have "updateDb io_ok ?m Map.empty = (fst (updateDb io_ok ?m Map.empty), None)"
    by (metis prod.collapse)
  from save_load_roundtrip[OF sv tv this] sv tv ok db show ?thesis
    by (simp add: ValidPath_db)
qed

subsection \<open>Fields the file omits keep the defaults\<close>

lemma store_keeps_delta:
  "store_State_field f v st = Inr st' \<Longrightarrow> f \<noteq> ''update_delta''
     \<Longrightarrow> UpdateDelta st' = UpdateDelta st"
  by (auto simp: store_State_field_def map_sum_def split: if_splits sum.splits)

lemma store_keeps_mirrors:
  "store_State_field f v st = Inr st' \<Longrightarrow> f \<noteq> ''mirrors'' \<Longrightarrow> f \<in> set State_fields
     \<Longrightarrow> Mirrors st' = Mirrors st"
  by (auto simp: store_State_field_def map_sum_def State_fields_def
      split: if_splits sum.splits)

lemma fields_keep_delta:
  "decode_fields State_fields store_State_field kvs st = Inr st' \<Longrightarrow>
   list_all (\<lambda>(k, v). field_of State_fields (utf8_coerce k) \<noteq> Some ''update_delta'') kvs \<Longrightarrow>
   UpdateDelta st' = UpdateDelta st"
proof (induction kvs arbitrary: st)
  case Nil
  then show ?case by simp
next
  case (Cons kv kvs)
  obtain k v where kv: "kv = (k, v)" by (cases kv)
  show ?case
  proof (cases "field_of State_fields (utf8_coerce k)")
    case None
    with Cons kv show ?thesis by simp
  next
    case (Some f)
    with Cons.prems kv obtain st1 where st1: "store_State_field f v st = Inr st1"
      "decode_fields State_fields store_State_field kvs st1 = Inr st'"
      by (auto split: sum.splits)
    have "f \<noteq> ''update_delta''" using Cons.prems(2) kv Some by simp
    with st1(1) have "UpdateDelta st1 = UpdateDelta st" by (rule store_keeps_delta)
    moreover have "UpdateDelta st' = UpdateDelta st1"
      using Cons.IH[OF st1(2)] Cons.prems(2) by simp
    ultimately show ?thesis by simp
  qed
qed

lemma fields_keep_mirrors:
  "decode_fields State_fields store_State_field kvs st = Inr st' \<Longrightarrow>
   list_all (\<lambda>(k, v). field_of State_fields (utf8_coerce k) \<noteq> Some ''mirrors'') kvs \<Longrightarrow>
   Mirrors st' = Mirrors st"
proof (induction kvs arbitrary: st)
  case Nil
  then show ?case by simp
next
  case (Cons kv kvs)
  obtain k v where kv: "kv = (k, v)" by (cases kv)
  show ?case
  proof (cases "field_of State_fields (utf8_coerce k)")
    case None
    with Cons kv show ?thesis by simp
  next
    case (Some f)
    with Cons.prems kv obtain st1 where st1: "store_State_field f v st = Inr st1"
      "decode_fields State_fields store_State_field kvs st1 = Inr st'"
      by (auto split: sum.splits)
    have "f \<noteq> ''mirrors''" using Cons.prems(2) kv Some by simp
    from st1(1) this field_of_member[OF Some] have "Mirrors st1 = Mirrors st"
      by (rule store_keeps_mirrors)
    moreover have "Mirrors st' = Mirrors st1"
      using Cons.IH[OF st1(2)] Cons.prems(2) by simp
    ultimately show ?thesis by simp
  qed
qed

text \<open>
  C9: when \<^verbatim>\<open>NewMirrorer\<close> loads a file that decodes, a document that omits
  \<^verbatim>\<open>update_delta\<close> leaves the update interval at the default of \<^verbatim>\<open>NewState\<close>, 5 minutes
  (300000000000 ns), and a document that omits \<^verbatim>\<open>mirrors\<close> leaves the map the non-nil
  empty map of \<^verbatim>\<open>NewState\<close>: decoding starts from \<^verbatim>\<open>NewState()\<close> and stores only into
  the fields the document names.
\<close>

theorem load_defaults:
  assumes "d path = Some (Doc j)" and "NewMirrorer_state d path = Inr st"
  shows "(omits j ''update_delta'' \<longrightarrow>
            UpdateDelta st = 5 * Minute \<and> sint (UpdateDelta st) = 5 * 60 * 1000000000)
       \<and> (omits j ''mirrors'' \<longrightarrow> Mirrors st = Some Map.empty)"
proof -
  from assms have dec: "decode_State j NewState = Inr st"
    by (auto simp: NewMirrorer_state_def split: if_splits sum.splits)
  have five: "sint (5 * Minute) = 5 * 60 * 1000000000" by (simp add: Minute_def)
  show ?thesis
  proof (cases j)
    case (JObj kvs)
    with dec have f: "decode_fields State_fields store_State_field kvs NewState = Inr st"
      by (simp add: decode_State_def decode_struct_def)
    show ?thesis
      using fields_keep_delta[OF f] fields_keep_mirrors[OF f] five JObj
      by (simp add: omits_def NewState_def)
  qed (use dec five in \<open>auto simp: decode_State_def decode_struct_def NewState_def\<close>)
qed

theorem load_defaults_witness:
  "NewMirrorer_state [''db.json'' \<mapsto> Doc (JObj [(''storage_path'', JStr ''store'')])] ''db.json''
     = Inr (NewState\<lparr>StoragePath := ''store''\<rparr>)
   \<and> omits (JObj [(''storage_path'', JStr ''store'')]) ''update_delta''
   \<and> omits (JObj [(''storage_path'', JStr ''store'')]) ''mirrors''
   \<and> sint (UpdateDelta (NewState\<lparr>StoragePath := ''store''\<rparr>)) = 5 * 60 * 1000000000
   \<and> Mirrors (NewState\<lparr>StoragePath := ''store''\<rparr>) = Some Map.empty"
proof -
  let ?j = "JObj [(''storage_path'', JStr ''store'')]"
  let ?d = "[''db.json'' \<mapsto> Doc ?j]"
  let ?st = "NewState\<lparr>StoragePath := ''store''\<rparr>"
  have ld: "NewMirrorer_state ?d ''db.json'' = Inr ?st"
    by (simp add: NewMirrorer_state_def ValidPath_db decode_State_def decode_struct_def
        coerce_tags State_field_tags store_State_field_def decode_string_def
        utf8_coerce_valid valid_examples)
  have om: "omits ?j ''update_delta''" "omits ?j ''mirrors''"
    by (simp_all add: omits_def coerce_tags State_field_tags)
  have d: "?d ''db.json'' = Some (Doc ?j)" by simp
  have a: "sint (UpdateDelta ?st) = 5 * 60 * 1000000000"
    by (rule load_defaults[OF d ld, THEN conjunct1, THEN mp, OF om(1), THEN conjunct2])
  have b: "Mirrors ?st = Some Map.empty"
    by (rule load_defaults[OF d ld, THEN conjunct2, THEN mp, OF om(2)])
  show ?thesis
    by (intro conjI ld om a b)
qed

subsection \<open>Saving is all or nothing\<close>

text \<open>
  C4: \<^verbatim>\<open>updateDb\<close> touches no path other than the target and one temporary path,
  which held no file before and lies in the directory of the target; it returns no
  error exactly when every step succeeds, and then the target holds the whole encoded
  snapshot. When the target exists and a step fails (the creation of the temporary
  file, the encoding, the close, and the rename as well), \<^verbatim>\<open>updateDb\<close> returns an
  error and the file at the target path is what it was, so what \<^verbatim>\<open>NewMirrorer\<close> loads
  from it is what it loaded before.
\<close>

theorem updateDb_atomic:
  assumes "d (dbPath m) \<noteq> None" and "updateDb io m d = (d', r)"
    and "tmp = temp_name (Dir (dbPath m)) (tmp_rand io)"
  shows "(\<forall>path. path \<noteq> dbPath m \<and> d' path \<noteq> d path \<longrightarrow> path = tmp \<and> d tmp = None)
     \<and> (CHR ''/'' \<notin> set (tmp_rand io) \<longrightarrow> Dir tmp = Dir (dbPath m))
     \<and> (r = None \<longleftrightarrow> d tmp = None \<and> create_err io = None
            \<and> (\<exists>j. encode_State (state m) = Inr j) \<and> encode_err io = None
            \<and> close_err io = None \<and> rename_err io = None)
     \<and> (r = None \<longrightarrow> (\<exists>j. encode_State (state m) = Inr j \<and> d' (dbPath m) = Some (Doc j)))
     \<and> (r \<noteq> None \<longrightarrow> d' (dbPath m) = d (dbPath m)
            \<and> NewMirrorer_state d' (dbPath m) = NewMirrorer_state d (dbPath m))"
proof -
  have fs: "fst (updateDb io m d) = d'" "snd (updateDb io m d) = r"
    using assms(2) by simp_all
  have others: "\<forall>path. path \<noteq> dbPath m \<and> d' path \<noteq> d path \<longrightarrow> path = tmp \<and> d tmp = None"
  proof (intro allI impI)
    fix path
    assume "path \<noteq> dbPath m \<and> d' path \<noteq> d path"
    then show "path = tmp \<and> d tmp = None"
      using updateDb_others[of path m io d] unfolding fs assms(3) by simp
  qed
  have dir: "CHR ''/'' \<notin> set (tmp_rand io) \<longrightarrow> Dir tmp = Dir (dbPath m)"
    unfolding assms(3) by (simp add: Dir_temp_name)
  have iff: "r = None \<longleftrightarrow> d tmp = None \<and> create_err io = None
            \<and> (\<exists>j. encode_State (state m) = Inr j) \<and> encode_err io = None
            \<and> close_err io = None \<and> rename_err io = None"
    using updateDb_success_iff[of io m d] unfolding fs assms(3) .
  have ok: "r = None \<longrightarrow> (\<exists>j. encode_State (state m) = Inr j \<and> d' (dbPath m) = Some (Doc j))"
    using updateDb_success[of io m d] unfolding fs by simp
  have kept: "r \<noteq> None \<longrightarrow> d' (dbPath m) = d (dbPath m)
            \<and> NewMirrorer_state d' (dbPath m) = NewMirrorer_state d (dbPath m)"
  proof
    assume "r \<noteq> None"
    then have "d' (dbPath m) = d (dbPath m)"
      using updateDb_target_kept[of d m io] assms(1) unfolding fs by simp
    then show "d' (dbPath m) = d (dbPath m)
            \<and> NewMirrorer_state d' (dbPath m) = NewMirrorer_state d (dbPath m)"
      by (simp add: NewMirrorer_state_def)
  qed
  show ?thesis
    by (intro conjI others dir iff ok kept)
qed

theorem updateDb_atomic_witness:
  "disk_committed (dbPath m_empty) \<noteq> None
   \<and> snd (updateDb io_encode_fails m_empty disk_committed) \<noteq> None
   \<and> fst (updateDb io_encode_fails m_empty disk_committed) (dbPath m_empty)
       = disk_committed (dbPath m_empty)
   \<and> NewMirrorer_state (fst (updateDb io_encode_fails m_empty disk_committed)) (dbPath m_empty)
       = NewMirrorer_state disk_committed (dbPath m_empty)
   \<and> fst (updateDb io_encode_fails m_empty disk_committed) ''looter.1.tmp'' = Some Broken"
proof -
  let ?u = "updateDb io_encode_fails m_empty disk_committed"
  have ex: "disk_committed (dbPath m_empty) \<noteq> None"
    by (simp add: disk_committed_def m_empty_def)
  have enc: "encode_State (state m_empty) = Inr (JObj [(''storage_path'', JStr []),
       (''update_delta'', JNum 300000000000), (''mirrors'', JObj [])])"
    by (simp add: encode_State_def encode_Mirrors_def m_empty_def NewState_def Minute_def
        utf8_coerce_def)
  have u: "?u = (disk_committed(''looter.1.tmp'' \<mapsto> Broken),
                 Some ''cannot write temporary state file: no space left on device'')"
    by (simp add: updateDb_def enc io_encode_fails_def io_ok_def Dir_def temp_name_def
        disk_committed_def)
      (simp add: m_empty_def)
  have fail: "snd ?u \<noteq> None" by (simp add: u)
  have tmp: "fst ?u ''looter.1.tmp'' = Some Broken" by (simp add: u)
  have pr: "?u = (fst ?u, snd ?u)" by simp
  note T = updateDb_atomic[OF ex pr refl]
  have kept: "fst ?u (dbPath m_empty) = disk_committed (dbPath m_empty)
     \<and> NewMirrorer_state (fst ?u) (dbPath m_empty) = NewMirrorer_state disk_committed (dbPath m_empty)"
    by (rule T[THEN conjunct2, THEN conjunct2, THEN conjunct2, THEN conjunct2, THEN mp, OF fail])
  show ?thesis
    by (intro conjI ex fail kept[THEN conjunct1] kept[THEN conjunct2] tmp)
qed

subsection \<open>The add-mirror handler\<close>

lemma checkArgs_ok:
  "Has q ''name'' \<Longrightarrow> Has q ''url'' \<Longrightarrow> checkArgs w q [''name'', ''url''] = (w, True)"
  by (simp add: checkArgs_def)

lemma q_repo1_args:
  "Has q_repo1 ''name''" "Has q_repo1 ''url''"
  "Get q_repo1 ''name'' = ''repo1''" "Get q_repo1 ''url'' = repo1_url"
  by (simp_all add: q_repo1_def Has_def Get_def)

lemma load_null_mirrors:
  "NewMirrorer_state [''db.json'' \<mapsto> Doc (JObj [(''mirrors'', JNull)])] ''db.json''
     = Inr (state m_nil)"
  by (simp add: NewMirrorer_state_def ValidPath_db decode_State_def decode_struct_def
      coerce_tags State_field_tags store_State_field_def decode_Mirrors_def m_nil_def)

text \<open>
  C2, as stated, fails on a registry whose map is \<^verbatim>\<open>nil\<close> (loaded from a file with
  \<^verbatim>\<open>"mirrors": null\<close>): the name is not present, the handler panics in the
  assignment, and no mirror is inserted.
\<close>

theorem AddMirrorHandler_counterexample:
  "NewMirrorer_state [''db.json'' \<mapsto> Doc (JObj [(''mirrors'', JNull)])] ''db.json''
     = Inr (state m_nil)
   \<and> map_lookup (Mirrors (state m_nil)) (Get q_repo1 ''name'') = None
   \<and> AddMirrorHandler 7 io_ok q_repo1 m_nil Map.empty
       = (Panicked ''assignment to entry in nil map'', m_nil, Map.empty)"
proof -
  have "map_lookup (Mirrors (state m_nil)) ''repo1'' = None"
    by (simp add: m_nil_def map_lookup_def)
  moreover have "AddMirrorHandler 7 io_ok q_repo1 m_nil Map.empty
       = (Panicked ''assignment to entry in nil map'', m_nil, Map.empty)"
    using calculation
    by (simp add: AddMirrorHandler_def checkArgs_ok q_repo1_args map_assign_def)
      (simp add: m_nil_def)
  ultimately show ?thesis by (simp add: load_null_mirrors q_repo1_args)
qed

text \<open>
  C2, amended: for a request that carries \<^verbatim>\<open>name\<close> and \<^verbatim>\<open>url\<close>, on every registry: when
  the name is present the handler answers 500 with the text "cannot add mirror
  '<name>': already exists" and leaves the mirrorer and the disk as they were; when
  the name is not present and the map is not \<^verbatim>\<open>nil\<close>, the mirrorer it leaves differs
  only in the entry of the name, which is a Fresh mirror with the given URL (and the
  time of the call), whatever becomes of the save.
\<close>

theorem AddMirrorHandler_register:
  assumes "Has q ''name''" and "Has q ''url''"
  shows "(map_lookup (Mirrors (state m)) (Get q ''name'') \<noteq> None \<longrightarrow>
            AddMirrorHandler t io q m d =
              (Replied 500 (''cannot add mirror '' @ [CHR 0x27] @ Get q ''name'' @ [CHR 0x27]
                              @ '': already exists'' @ [CHR 0x0A]), m, d))
       \<and> (map_lookup (Mirrors (state m)) (Get q ''name'') = None \<longrightarrow>
            Mirrors (state m) = Some mp \<longrightarrow>
            (\<exists>out d'. AddMirrorHandler t io q m d =
               (out,
                m\<lparr>state := (state m)\<lparr>Mirrors := Some (mp(Get q ''name'' \<mapsto>
                     \<lparr>Url = Get q ''url'', LastUpdate = t, State = MirrorFresh\<rparr>))\<rparr>\<rparr>,
                d')))"
  using assms
  by (auto simp: AddMirrorHandler_def checkArgs_ok http_Error_def finish_def map_assign_def
      Let_def split: prod.splits option.splits)

theorem AddMirrorHandler_register_witness:
  "Has q_repo1 ''name'' \<and> Has q_repo1 ''url''
   \<and> AddMirrorHandler 9 io_ok q_repo1 (m_repo1 MirrorReady 7 (5 * Minute)) Map.empty =
        (Replied 500 (''cannot add mirror '' @ [CHR 0x27] @ ''repo1'' @ [CHR 0x27]
                        @ '': already exists'' @ [CHR 0x0A]),
         m_repo1 MirrorReady 7 (5 * Minute), Map.empty)
   \<and> (\<exists>out d'. AddMirrorHandler 9 io_ok q_repo1 m_empty Map.empty =
         (out,
          m_empty\<lparr>state := (state m_empty)\<lparr>Mirrors := Some [''repo1'' \<mapsto>
                     \<lparr>Url = repo1_url, LastUpdate = 9, State = MirrorFresh\<rparr>]\<rparr>\<rparr>,
          d'))"
proof -
  have present: "map_lookup (Mirrors (state (m_repo1 MirrorReady 7 (5 * Minute)))) ''repo1'' \<noteq> None"
    by (simp add: m_repo1_def map_lookup_def)
  have absent: "map_lookup (Mirrors (state m_empty)) ''repo1'' = None"
    "Mirrors (state m_empty) = Some Map.empty"
    by (simp_all add: m_empty_def NewState_def map_lookup_def)
  have a: "AddMirrorHandler 9 io_ok q_repo1 (m_repo1 MirrorReady 7 (5 * Minute)) Map.empty =
        (Replied 500 (''cannot add mirror '' @ [CHR 0x27] @ ''repo1'' @ [CHR 0x27]
                        @ '': already exists'' @ [CHR 0x0A]),
         m_repo1 MirrorReady 7 (5 * Minute), Map.empty)"
    using AddMirrorHandler_register[OF q_repo1_args(1,2),
        where m = "m_repo1 MirrorReady 7 (5 * Minute)" and t = 9 and io = io_ok and d = Map.empty]
      present
    unfolding q_repo1_args by simp
  have b: "\<exists>out d'. AddMirrorHandler 9 io_ok q_repo1 m_empty Map.empty =
         (out,
          m_empty\<lparr>state := (state m_empty)\<lparr>Mirrors := Some [''repo1'' \<mapsto>
                     \<lparr>Url = repo1_url, LastUpdate = 9, State = MirrorFresh\<rparr>]\<rparr>\<rparr>,
          d')"
    using AddMirrorHandler_register[OF q_repo1_args(1,2),
        where m = m_empty and t = 9 and io = io_ok and d = Map.empty and mp = Map.empty]
      absent
    unfolding q_repo1_args by simp
  show ?thesis
    by (intro conjI q_repo1_args a b)
qed

subsection \<open>One iteration of the event loop\<close>

lemma Ready_found:
  "State (map_index ms k) = MirrorReady \<Longrightarrow> \<exists>mp mi. ms = Some mp \<and> mp k = Some mi \<and> map_index ms k = mi"
  by (auto simp: map_index_def map_lookup_def zero_Mirror_def MirrorReady_def split: option.splits)

lemma loop_body_skip:
  "State (map_index (Mirrors (state (mirrorer p))) mirrorName) \<noteq> MirrorReady
     \<Longrightarrow> loop_body io mirrorName p = p"
  by (simp add: loop_body_def)

lemma loop_body_crashed: "crashed p \<noteq> None \<Longrightarrow> loop_body io mirrorName p = p"
  by (simp add: loop_body_def)

lemma loop_body_fails:
  assumes "crashed p = None"
    and "State (map_index (Mirrors (state (mirrorer p))) mirrorName) = MirrorReady"
    and "update_exec io \<noteq> ExecOk"
  shows "mirrorer (loop_body io mirrorName p) = mirrorer p"
    and "disk (loop_body io mirrorName p) = disk p"
    and "sleepers (loop_body io mirrorName p) = sleepers p"
    and "commands (loop_body io mirrorName p)
           = commands p @ [GitRemoteUpdate (StoragePath (state (mirrorer p))) mirrorName]"
  using assms by (cases "update_exec io"; simp add: loop_body_def gitRemoteUpdate_def)+

lemma loop_body_succeeds:
  assumes "crashed p = None"
    and "Mirrors (state (mirrorer p)) = Some mp" and "mp mirrorName = Some mirror"
    and "State mirror = MirrorReady"
    and "update_exec io = ExecOk"
  shows "loop_body io mirrorName p =
     p\<lparr>mirrorer := (mirrorer p)\<lparr>state := (state (mirrorer p))
          \<lparr>Mirrors := Some (mp(mirrorName \<mapsto> mirror\<lparr>LastUpdate := now io\<rparr>))\<rparr>\<rparr>,
       disk := fst (updateDb (save_io io) ((mirrorer p)\<lparr>state := (state (mirrorer p))
          \<lparr>Mirrors := Some (mp(mirrorName \<mapsto> mirror\<lparr>LastUpdate := now io\<rparr>))\<rparr>\<rparr>) (disk p)),
       commands := commands p @ [GitRemoteUpdate (StoragePath (state (mirrorer p))) mirrorName],
       sleepers := sleepers p @ [(mirrorName, Time_Add (now io) (UpdateDelta (state (mirrorer p))))]\<rparr>"
  using assms
  by (simp add: loop_body_def gitRemoteUpdate_def map_index_def map_lookup_def map_assign_def
      Let_def split: prod.splits)

lemma loop_body_sleepers:
  "sleepers (loop_body io mirrorName p) = sleepers p
   \<or> (\<exists>t. sleepers (loop_body io mirrorName p) = sleepers p @ [(mirrorName, t)])"
proof (cases "crashed p = None \<and> State (map_index (Mirrors (state (mirrorer p))) mirrorName) = MirrorReady")
  case False
  then show ?thesis using loop_body_skip loop_body_crashed by metis
next
  case True
  then obtain mp mi where f: "Mirrors (state (mirrorer p)) = Some mp" "mp mirrorName = Some mi"
    "State mi = MirrorReady"
    using Ready_found[of "Mirrors (state (mirrorer p))" mirrorName] by auto
  show ?thesis
  proof (cases "update_exec io = ExecOk")
    case True
    from loop_body_succeeds[OF _ f True] \<open>crashed p = None \<and> _\<close> show ?thesis by simp
  next
    case False
    with True loop_body_fails(3) show ?thesis by simp
  qed
qed

lemma loop_body_other_mirror:
  assumes "k \<noteq> mirrorName"
  shows "map_lookup (Mirrors (state (mirrorer (loop_body io mirrorName p)))) k
           = map_lookup (Mirrors (state (mirrorer p))) k"
    and "updates_of k (commands (loop_body io mirrorName p)) = updates_of k (commands p)"
proof -
  show "map_lookup (Mirrors (state (mirrorer (loop_body io mirrorName p)))) k
           = map_lookup (Mirrors (state (mirrorer p))) k"
  proof (cases "crashed p = None \<and> State (map_index (Mirrors (state (mirrorer p))) mirrorName) = MirrorReady")
    case False
    then show ?thesis using loop_body_skip loop_body_crashed by metis
  next
    case True
    then obtain mp mi where f: "Mirrors (state (mirrorer p)) = Some mp" "mp mirrorName = Some mi"
      "State mi = MirrorReady"
      using Ready_found[of "Mirrors (state (mirrorer p))" mirrorName] by auto
    show ?thesis
    proof (cases "update_exec io = ExecOk")
      case True
      from loop_body_succeeds[OF _ f True] \<open>crashed p = None \<and> _\<close> f(1) assms
      show ?thesis by (simp add: map_lookup_def)
    next
      case False
      with True loop_body_fails(1) show ?thesis by simp
    qed
  qed
  show "updates_of k (commands (loop_body io mirrorName p)) = updates_of k (commands p)"
    using assms
    by (cases "update_exec io")
      (auto simp: loop_body_def gitRemoteUpdate_def updates_of_def map_assign_def Let_def
        split: prod.splits option.splits)
qed

subsection \<open>The add-mirror handler never touches an entry that exists\<close>

lemma AddMirrorHandler_keeps:
  assumes "map_lookup (Mirrors (state m)) k \<noteq> None"
    and "AddMirrorHandler t io q m d = (out, m', d')"
  shows "map_lookup (Mirrors (state m')) k = map_lookup (Mirrors (state m)) k"
  using assms
  by (auto simp: AddMirrorHandler_def map_assign_def map_lookup_def Let_def
      split: prod.splits option.splits if_splits bool.splits)

subsection \<open>Steps of the program\<close>

lemma distinct_moved:
  "distinct (xs @ ys @ n # zs) \<Longrightarrow> distinct (xs @ ys @ zs) \<and> distinct ((xs @ [n]) @ ys @ zs)"
  by auto

lemma do_step_distinct:
  assumes "distinct (timers_of s)"
  shows "distinct (timers_of (do_step e s))"
proof (cases "crashed (run s) = None")
  case False
  then show ?thesis using assms by (simp add: do_step_def)
next
  case live: True
  show ?thesis
  proof (cases e)
    case (Post i)
    show ?thesis
    proof (cases "i < length (sleepers (run s))")
      case True
      let ?sl = "sleepers (run s)"
      have "?sl = take i ?sl @ ?sl ! i # drop (Suc i) ?sl"
        using True by (rule id_take_nth_drop)
      then have "timers_of s = map fst (take i ?sl) @ fst (?sl ! i) # map fst (drop (Suc i) ?sl) @ channel s"
        unfolding timers_of_def by (metis append_Cons append_assoc list.simps(9) map_append)
      with assms have "distinct (map fst (take i ?sl @ drop (Suc i) ?sl) @ channel s @ [fst (?sl ! i)])"
        by auto
      with True live Post show ?thesis by (simp add: do_step_def timers_of_def)
    next
      case False
      with live Post assms show ?thesis by (simp add: do_step_def)
    qed
  next
    case (Receive i io)
    show ?thesis
    proof (cases "i < length (channel s)")
      case True
      let ?ch = "channel s"
      let ?n = "?ch ! i"
      have ch: "?ch = take i ?ch @ ?n # drop (Suc i) ?ch"
        using True by (rule id_take_nth_drop)
      have d1: "distinct (map fst (sleepers (run s)) @ take i ?ch @ ?n # drop (Suc i) ?ch)"
        using assms ch unfolding timers_of_def by metis
      from loop_body_sleepers[of io ?n "run s"]
      have "map fst (sleepers (loop_body io ?n (run s))) = map fst (sleepers (run s))
          \<or> map fst (sleepers (loop_body io ?n (run s))) = map fst (sleepers (run s)) @ [?n]"
        by auto
      with distinct_moved[OF d1]
      have "distinct (map fst (sleepers (loop_body io ?n (run s))) @ take i ?ch @ drop (Suc i) ?ch)"
        by metis
      with True live Receive show ?thesis by (simp add: do_step_def timers_of_def)
    next
      case False
      with live Receive assms show ?thesis by (simp add: do_step_def)
    qed
  next
    case (Serve t io q)
    with live assms show ?thesis
      by (simp add: do_step_def timers_of_def split: prod.splits)
  qed
qed

lemma do_step_dropped:
  assumes "n \<notin> set (timers_of s)"
    and "map_lookup (Mirrors (state (mirrorer (run s)))) n \<noteq> None"
  shows "n \<notin> set (timers_of (do_step e s))"
    and "updates_of n (commands (run (do_step e s))) = updates_of n (commands (run s))"
    and "map_lookup (Mirrors (state (mirrorer (run (do_step e s))))) n
           = map_lookup (Mirrors (state (mirrorer (run s)))) n"
proof -
  have "n \<notin> set (timers_of (do_step e s))
    \<and> updates_of n (commands (run (do_step e s))) = updates_of n (commands (run s))
    \<and> map_lookup (Mirrors (state (mirrorer (run (do_step e s))))) n
           = map_lookup (Mirrors (state (mirrorer (run s)))) n"
  proof (cases "crashed (run s) = None")
    case False
    then show ?thesis using assms by (simp add: do_step_def)
  next
    case live: True
    show ?thesis
    proof (cases e)
      case (Post i)
      have "set (take i (sleepers (run s)) @ drop (Suc i) (sleepers (run s))) \<subseteq> set (sleepers (run s))"
        by (auto dest: in_set_takeD in_set_dropD)
      moreover have "i < length (sleepers (run s)) \<Longrightarrow> sleepers (run s) ! i \<in> set (sleepers (run s))"
        by simp
      ultimately show ?thesis using assms(1) live Post
        by (auto simp: do_step_def timers_of_def)
    next
      case (Receive i io)
      show ?thesis
      proof (cases "i < length (channel s)")
        case True
        then have "channel s ! i \<in> set (channel s)" by simp
        with assms(1) have ne: "n \<noteq> channel s ! i" by (auto simp: timers_of_def)
        have "set (take i (channel s) @ drop (Suc i) (channel s)) \<subseteq> set (channel s)"
          by (auto dest: in_set_takeD in_set_dropD)
        with assms(1) have c: "n \<notin> set (take i (channel s) @ drop (Suc i) (channel s))"
          by (auto simp: timers_of_def)
        have sl: "n \<notin> fst ` set (sleepers (loop_body io (channel s ! i) (run s)))"
          using loop_body_sleepers[of io "channel s ! i" "run s"] assms(1) ne
          by (auto simp: timers_of_def)
        show ?thesis
          using True live Receive c sl loop_body_other_mirror[OF ne]
          by (simp add: do_step_def timers_of_def)
      next
        case False
        with live Receive assms show ?thesis by (simp add: do_step_def)
      qed
    next
      case (Serve t io q)
      obtain out m' d' where h: "AddMirrorHandler t io q (mirrorer (run s)) (disk (run s)) = (out, m', d')"
        by (cases "AddMirrorHandler t io q (mirrorer (run s)) (disk (run s))")
      from AddMirrorHandler_keeps[OF assms(2) h] live Serve h assms(1)
      show ?thesis by (simp add: do_step_def timers_of_def)
    qed
  qed
  then show "n \<notin> set (timers_of (do_step e s))"
    and "updates_of n (commands (run (do_step e s))) = updates_of n (commands (run s))"
    and "map_lookup (Mirrors (state (mirrorer (run (do_step e s))))) n
           = map_lookup (Mirrors (state (mirrorer (run s)))) n"
    by simp_all
qed

lemma do_steps_dropped:
  assumes "n \<notin> set (timers_of s)"
    and "map_lookup (Mirrors (state (mirrorer (run s)))) n \<noteq> None"
  shows "updates_of n (commands (run (do_steps es s))) = updates_of n (commands (run s))
       \<and> map_lookup (Mirrors (state (mirrorer (run (do_steps es s))))) n
           = map_lookup (Mirrors (state (mirrorer (run s)))) n"
  using assms
proof (induction es arbitrary: s)
  case Nil
  then show ?case by simp
next
  case (Cons e es)
  note d = do_step_dropped[OF Cons.prems, of e]
  from Cons.IH[of "do_step e s"] d Cons.prems(2) show ?case by simp
qed

lemma do_steps_distinct: "distinct (timers_of s) \<Longrightarrow> distinct (timers_of (do_steps es s))"
  by (induction es arbitrary: s) (simp_all add: do_step_distinct)

subsection \<open>The arm phase starts one timer for each Ready mirror\<close>

lemma arm_body_keeps:
  "mirrorer (arm_body n p) = mirrorer p" "crashed (arm_body n p) = crashed p"
  by (simp_all add: arm_body_def Let_def split: option.splits)

lemma arm_names:
  assumes "crashed p = None"
  shows "map fst (sleepers (arm order p)) = map fst (sleepers p) @ filter (is_Ready p) order"
  using assms
proof (induction order arbitrary: p)
  case Nil
  then show ?case by simp
next
  case (Cons n order)
  have r: "is_Ready (arm_body n p) = is_Ready p"
    by (simp add: is_Ready_def arm_body_keeps fun_eq_iff)
  have "map fst (sleepers (arm_body n p))
      = map fst (sleepers p) @ (if is_Ready p n then [n] else [])"
    using Cons.prems by (simp add: arm_body_def is_Ready_def Let_def split: option.splits)
  with Cons.IH[of "arm_body n p"] Cons.prems r show ?case
    by (simp add: arm_body_keeps)
qed

lemma arm_distinct:
  assumes "crashed p = None" and "sleepers p = []" and "distinct order"
  shows "distinct (timers_of \<lparr>run = arm order p, channel = []\<rparr>)"
  using arm_names[OF assms(1), of order] assms(2,3) by (simp add: timers_of_def)

subsection \<open>The event loop on a name that is not a Ready mirror, and on a failed update\<close>

lemma p_repo1_simps:
  "crashed (p_repo1 ms t delta) = None"
  "mirrorer (p_repo1 ms t delta) = m_repo1 ms t delta"
  "disk (p_repo1 ms t delta) = Map.empty"
  "sleepers (p_repo1 ms t delta) = []"
  "commands (p_repo1 ms t delta) = []"
  "Mirrors (state (m_repo1 ms t delta))
     = Some [''repo1'' \<mapsto> \<lparr>Url = repo1_url, LastUpdate = t, State = ms\<rparr>]"
  "StoragePath (state (m_repo1 ms t delta)) = ''store''"
  "UpdateDelta (state (m_repo1 ms t delta)) = delta"
  "map_lookup (Mirrors (state (m_repo1 ms t delta))) ''repo1''
     = Some \<lparr>Url = repo1_url, LastUpdate = t, State = ms\<rparr>"
  "map_index (Mirrors (state (m_repo1 ms t delta))) ''repo1''
     = \<lparr>Url = repo1_url, LastUpdate = t, State = ms\<rparr>"
  by (simp_all add: p_repo1_def m_repo1_def map_lookup_def map_index_def)

lemma io_run_simps:
  "update_exec (io_run r t) = r" "now (io_run r t) = t" "save_io (io_run r t) = io_ok"
  "clone_io (io_run r t) = \<lparr>remove_err = None, clone_exec = r\<rparr>"
  by (simp_all add: io_run_def)

text \<open>
  C8: when the name received is not a key of the registry the lookup yields the zero
  \<^verbatim>\<open>Mirror\<close>, whose state is not Ready; and whenever the mirror looked up is not Ready
  the iteration changes nothing at all: the mirrorer, the disk, the calls made on the
  storage tree, the log and the timers are what they were.
\<close>

theorem loop_body_noop:
  "(map_lookup (Mirrors (state (mirrorer p))) mirrorName = None \<longrightarrow>
      map_index (Mirrors (state (mirrorer p))) mirrorName = zero_Mirror
      \<and> State zero_Mirror \<noteq> MirrorReady
      \<and> loop_body io mirrorName p = p)
   \<and> (State (map_index (Mirrors (state (mirrorer p))) mirrorName) \<noteq> MirrorReady \<longrightarrow>
      loop_body io mirrorName p = p)"
  by (simp add: loop_body_def map_index_def zero_Mirror_def MirrorReady_def)

theorem loop_body_noop_witness:
  "map_lookup (Mirrors (state (mirrorer (p_repo1 MirrorFresh 7 (5 * Minute))))) ''other'' = None
   \<and> loop_body (io_run ExecOk 9) ''other'' (p_repo1 MirrorFresh 7 (5 * Minute))
       = p_repo1 MirrorFresh 7 (5 * Minute)
   \<and> State (map_index (Mirrors (state (mirrorer (p_repo1 MirrorFresh 7 (5 * Minute))))) ''repo1'')
       \<noteq> MirrorReady
   \<and> loop_body (io_run ExecOk 9) ''repo1'' (p_repo1 MirrorFresh 7 (5 * Minute))
       = p_repo1 MirrorFresh 7 (5 * Minute)"
proof -
  let ?p = "p_repo1 MirrorFresh 7 (5 * Minute)"
  have a: "map_lookup (Mirrors (state (mirrorer ?p))) ''other'' = None"
    by (simp add: p_repo1_simps(2,6) map_lookup_def)
  have b: "State (map_index (Mirrors (state (mirrorer ?p))) ''repo1'') \<noteq> MirrorReady"
    by (simp add: p_repo1_simps(2,10) MirrorFresh_def MirrorReady_def)
  note T1 = loop_body_noop[of ?p "''other''" "io_run ExecOk 9", THEN conjunct1, THEN mp, OF a]
  note T2 = loop_body_noop[of ?p "''repo1''" "io_run ExecOk 9", THEN conjunct2, THEN mp, OF b]
  show ?thesis
    by (intro conjI a b T1[THEN conjunct2, THEN conjunct2] T2)
qed

text \<open>
  C5: when \<^verbatim>\<open>Run\<close> receives the name of a Ready mirror and the remote update fails
  (with an exit error, or with a panic), the step leaves the mirrorer and the disk as
  they were and starts no timer. With at most one timer alive per name before the
  step, the mirror has none after it, and then, whatever steps the program takes
  from there, no further remote update is run for the mirror and its record stays
  what it was.
\<close>

theorem refresh_failure_drops_mirror:
  assumes "distinct (timers_of s)" and "crashed (run s) = None"
    and "i < length (channel s)" and "channel s ! i = mirrorName"
    and "State (map_index (Mirrors (state (mirrorer (run s)))) mirrorName) = MirrorReady"
    and "update_exec io \<noteq> ExecOk"
    and "s' = do_step (Receive i io) s"
  shows "mirrorer (run s') = mirrorer (run s)
       \<and> disk (run s') = disk (run s)
       \<and> sleepers (run s') = sleepers (run s)
       \<and> mirrorName \<notin> set (timers_of s')
       \<and> (\<forall>es. updates_of mirrorName (commands (run (do_steps es s')))
                  = updates_of mirrorName (commands (run s'))
              \<and> map_lookup (Mirrors (state (mirrorer (run (do_steps es s'))))) mirrorName
                  = map_lookup (Mirrors (state (mirrorer (run s)))) mirrorName)"
proof -
  note f = loop_body_fails[OF assms(2,5,6)]
  have s': "s' = s\<lparr>run := loop_body io mirrorName (run s),
                   channel := take i (channel s) @ drop (Suc i) (channel s)\<rparr>"
    using assms(2,3,4,7) by (simp add: do_step_def)
  have m: "mirrorer (run s') = mirrorer (run s)" and d: "disk (run s') = disk (run s)"
    and sl: "sleepers (run s') = sleepers (run s)"
    using f s' by simp_all
  have "channel s = take i (channel s) @ mirrorName # drop (Suc i) (channel s)"
    using id_take_nth_drop[OF assms(3)] assms(4) by simp
  then have "distinct (map fst (sleepers (run s)) @ take i (channel s) @ mirrorName # drop (Suc i) (channel s))"
    using assms(1) unfolding timers_of_def by metis
  then have gone: "mirrorName \<notin> set (timers_of s')"
    unfolding timers_of_def s' using f(3) by auto
  obtain mp mi where "Mirrors (state (mirrorer (run s))) = Some mp" "mp mirrorName = Some mi"
    using Ready_found[OF assms(5)] by auto
  then have ex: "map_lookup (Mirrors (state (mirrorer (run s')))) mirrorName \<noteq> None"
    using m by (simp add: map_lookup_def)
  have rest: "\<forall>es. updates_of mirrorName (commands (run (do_steps es s')))
                  = updates_of mirrorName (commands (run s'))
              \<and> map_lookup (Mirrors (state (mirrorer (run (do_steps es s'))))) mirrorName
                  = map_lookup (Mirrors (state (mirrorer (run s)))) mirrorName"
    using do_steps_dropped[OF gone ex] m by simp
  show ?thesis
    by (intro conjI m d sl gone rest)
qed

theorem refresh_failure_drops_mirror_witness:
  "distinct (timers_of (s_repo1 7 (5 * Minute)))
   \<and> channel (s_repo1 7 (5 * Minute)) ! 0 = ''repo1''
   \<and> update_exec (io_run exit_128 50) \<noteq> ExecOk
   \<and> mirrorer (run (do_step (Receive 0 (io_run exit_128 50)) (s_repo1 7 (5 * Minute))))
       = m_repo1 MirrorReady 7 (5 * Minute)
   \<and> sleepers (run (do_step (Receive 0 (io_run exit_128 50)) (s_repo1 7 (5 * Minute)))) = []
   \<and> ''repo1'' \<notin> set (timers_of (do_step (Receive 0 (io_run exit_128 50)) (s_repo1 7 (5 * Minute))))
   \<and> updates_of ''repo1'' (commands (run (do_steps [Serve 9 io_ok q_repo1, Post 0]
         (do_step (Receive 0 (io_run exit_128 50)) (s_repo1 7 (5 * Minute))))))
       = updates_of ''repo1'' (commands (run
           (do_step (Receive 0 (io_run exit_128 50)) (s_repo1 7 (5 * Minute)))))"
proof -
  let ?s = "s_repo1 7 (5 * Minute)"
  let ?io = "io_run exit_128 50"
  have h1: "distinct (timers_of ?s)"
    by (simp add: timers_of_def s_repo1_def p_repo1_simps(4))
  have h2: "crashed (run ?s) = None" by (simp add: s_repo1_def p_repo1_simps(1))
  have h3: "0 < length (channel ?s)" by (simp add: s_repo1_def)
  have h4: "channel ?s ! 0 = ''repo1''" by (simp add: s_repo1_def)
  have h5: "State (map_index (Mirrors (state (mirrorer (run ?s)))) ''repo1'') = MirrorReady"
    by (simp add: s_repo1_def p_repo1_simps(2,10))
  have h6: "update_exec ?io \<noteq> ExecOk" by (simp add: io_run_simps exit_128_def)
  note T = refresh_failure_drops_mirror[OF h1 h2 h3 h4 h5 h6 refl]
  have m: "mirrorer (run ?s) = m_repo1 MirrorReady 7 (5 * Minute)"
    and sl: "sleepers (run ?s) = []"
    by (simp_all add: s_repo1_def p_repo1_simps(2,4))
  show ?thesis
    using T[THEN conjunct1] T[THEN conjunct2, THEN conjunct2, THEN conjunct1]
      T[THEN conjunct2, THEN conjunct2, THEN conjunct2, THEN conjunct1]
      T[THEN conjunct2, THEN conjunct2, THEN conjunct2, THEN conjunct2, THEN spec,
        of "[Serve 9 io_ok q_repo1, Post 0]", THEN conjunct1]
    unfolding m sl
    by (intro conjI h1 h4 h6)
qed

subsection \<open>The catch-up pass\<close>

lemma catchup_body_clone_returned:
  assumes "crashed p = None"
    and "Mirrors (state (mirrorer p)) = Some mp" and "mp mirrorName = Some mirror"
    and "State mirror = MirrorFresh"
    and "snd (gitCloneMirror (clone_io io) (StoragePath (state (mirrorer p))) mirrorName
           (Url mirror)) = Return err"
  shows "Mirrors (state (mirrorer (catchup_body io mirrorName p)))
           = Some (mp(mirrorName \<mapsto> mirror\<lparr>State := MirrorReady, LastUpdate := now io\<rparr>))"
  using assms
  by (auto simp: catchup_body_def map_lookup_def map_assign_def Let_def
      split: prod.splits go.splits)

lemma clone_exit_128:
  "gitCloneMirror (clone_io (io_run exit_128 t)) sp n u =
     ([RemoveAll sp n, GitClone u sp n],
      Return (Some (''mirror failed: exit status 128'' @ [CHR 0x0A]
                     @ ''fatal: repository not found'' @ [CHR 0x0A])))"
  by (simp add: gitCloneMirror_def io_run_def exit_128_def)

text \<open>
  C1 fails on the code: the registry holds the Fresh mirror \<^verbatim>\<open>repo1\<close>, the clone of
  the catch-up pass returns an error (git exits with status 128), and after the pass
  the mirror is Ready, with the time read after the failed clone as its last update.
\<close>

theorem catchup_failed_clone_marks_Ready:
  "map_lookup (Mirrors (state (mirrorer (p_repo1 MirrorFresh 0 (5 * Minute))))) ''repo1''
     = Some \<lparr>Url = repo1_url, LastUpdate = 0, State = MirrorFresh\<rparr>
   \<and> snd (gitCloneMirror (clone_io (io_run exit_128 77)) ''store'' ''repo1'' repo1_url)
     = Return (Some (''mirror failed: exit status 128'' @ [CHR 0x0A]
                     @ ''fatal: repository not found'' @ [CHR 0x0A]))
   \<and> map_lookup (Mirrors (state (mirrorer
         (catchup (\<lambda>name. io_run exit_128 77) [''repo1''] (p_repo1 MirrorFresh 0 (5 * Minute))))))
         ''repo1''
     = Some \<lparr>Url = repo1_url, LastUpdate = 77, State = MirrorReady\<rparr>"
proof -
  let ?p = "p_repo1 MirrorFresh 0 (5 * Minute)"
  let ?mi = "\<lparr>Url = repo1_url, LastUpdate = 0, State = MirrorFresh\<rparr>"
  have a: "map_lookup (Mirrors (state (mirrorer ?p))) ''repo1'' = Some ?mi"
    by (simp add: p_repo1_simps(2,9))
  have b: "snd (gitCloneMirror (clone_io (io_run exit_128 77)) ''store'' ''repo1'' repo1_url)
     = Return (Some (''mirror failed: exit status 128'' @ [CHR 0x0A]
                     @ ''fatal: repository not found'' @ [CHR 0x0A]))"
    by (simp add: clone_exit_128)
  have "Mirrors (state (mirrorer (catchup_body (io_run exit_128 77) ''repo1'' ?p)))
      = Some ([''repo1'' \<mapsto> ?mi](''repo1'' \<mapsto> ?mi\<lparr>State := MirrorReady, LastUpdate := now (io_run exit_128 77)\<rparr>))"
    by (rule catchup_body_clone_returned[where err = "Some (''mirror failed: exit status 128'' @ [CHR 0x0A]
                     @ ''fatal: repository not found'' @ [CHR 0x0A])"])
      (simp_all add: p_repo1_simps(1,2,6,7) clone_exit_128)
  then have c: "map_lookup (Mirrors (state (mirrorer (catchup (\<lambda>name. io_run exit_128 77) [''repo1''] ?p)))) ''repo1''
     = Some \<lparr>Url = repo1_url, LastUpdate = 77, State = MirrorReady\<rparr>"
    by (simp add: map_lookup_def io_run_simps)
  show ?thesis by (intro conjI a b c)
qed

subsection \<open>The refresh cycle of a Ready mirror\<close>

lemma sint_of_int_64:
  assumes "- (2 ^ 63) \<le> x" and "x < 2 ^ 63"
  shows "sint (word_of_int x :: 64 word) = x"
  using assms by (simp add: sint_sbintrunc' signed_take_bit_int_eq_self)

lemma sint_Time_Sub:
  "sint (Time_Sub t u) = max (- (2 ^ 63)) (min (2 ^ 63 - 1) (t - u))"
proof -
  consider "t - u > 2 ^ 63 - 1" | "t - u < - (2 ^ 63)" | "- (2 ^ 63) \<le> t - u" "t - u < 2 ^ 63"
    by linarith
  then show ?thesis
  proof cases
    case 1
    then show ?thesis by (simp add: Time_Sub_def sint_of_int_64)
  next
    case 2
    then show ?thesis by (simp add: Time_Sub_def sint_of_int_64)
  next
    case 3
    then have "sint (word_of_int (t - u) :: 64 word) = t - u" by (rule sint_of_int_64)
    with 3 show ?thesis by (simp add: Time_Sub_def del: of_int_diff)
  qed
qed

lemma timer_not_early:
  assumes "deadline - start \<le> 2 ^ 63 - 1" and "timer_may_post start deadline t"
  shows "deadline \<le> t \<and> start \<le> t"
  using assms
  by (auto simp: timer_may_post_def Sleep_returns_def time_Until_def sint_Time_Sub
      max_def min_def split: if_splits)

lemma timer_due_at_once:
  assumes "deadline \<le> start"
  shows "timer_may_post start deadline start"
  using assms
  by (auto simp: timer_may_post_def Sleep_returns_def time_Until_def sint_Time_Sub
      max_def min_def split: if_splits)

text \<open>
  A deadline further ahead than a \<^verbatim>\<open>Duration\<close> can hold is cut short: the timer may
  post \<open>2^63 - 1\<close> ns after it read the clock, before the deadline.
\<close>

lemma timer_saturated:
  "timer_may_post 0 (2 ^ 63 + 1000) (2 ^ 63 - 1)"
  by (simp add: timer_may_post_def Sleep_returns_def time_Until_def sint_Time_Sub)

lemma arm_body_Ready:
  assumes "crashed p = None"
    and "Mirrors (state (mirrorer p)) = Some mp" and "mp mirrorName = Some mirror"
    and "State mirror = MirrorReady"
  shows "arm_body mirrorName p = p\<lparr>sleepers := sleepers p
           @ [(mirrorName, Time_Add (LastUpdate mirror) (UpdateDelta (state (mirrorer p))))]\<rparr>"
  using assms by (simp add: arm_body_def map_lookup_def)

text \<open>
  C6, as stated, fails: with an update interval of -500 ns and a last update at 1000,
  the timer of the mirror sleeps until 500; started at 600 it may post at once, and a
  refresh that succeeds at 600 sets the last update to 600, which is before 1000.
\<close>

theorem refresh_cycle_counterexample:
  "State (map_index (Mirrors (state (mirrorer (p_repo1 MirrorReady 1000 (- 500))))) ''repo1'')
     = MirrorReady
   \<and> sleepers (arm_body ''repo1'' (p_repo1 MirrorReady 1000 (- 500))) = [(''repo1'', 500)]
   \<and> timer_may_post 600 500 600
   \<and> update_exec (io_run ExecOk 600) = ExecOk
   \<and> LastUpdate (map_index (Mirrors (state (mirrorer
         (loop_body (io_run ExecOk 600) ''repo1'' (p_repo1 MirrorReady 1000 (- 500)))))) ''repo1'')
     < LastUpdate (map_index (Mirrors (state (mirrorer (p_repo1 MirrorReady 1000 (- 500)))))
         ''repo1'')"
proof -
  let ?p = "p_repo1 MirrorReady 1000 (- 500)"
  let ?mi = "\<lparr>Url = repo1_url, LastUpdate = 1000, State = MirrorReady\<rparr>"
  have old: "map_index (Mirrors (state (mirrorer ?p))) ''repo1'' = ?mi"
    by (simp add: p_repo1_simps(2,10))
  have a: "State (map_index (Mirrors (state (mirrorer ?p))) ''repo1'') = MirrorReady"
    by (simp add: old)
  have "arm_body ''repo1'' ?p = ?p\<lparr>sleepers := sleepers ?p
           @ [(''repo1'', Time_Add (LastUpdate ?mi) (UpdateDelta (state (mirrorer ?p))))]\<rparr>"
    by (rule arm_body_Ready[where mp = "[''repo1'' \<mapsto> ?mi]"])
      (simp_all add: p_repo1_simps(1,2,6))
  then have b: "sleepers (arm_body ''repo1'' ?p) = [(''repo1'', 500)]"
    by (simp add: p_repo1_simps(2,4,8) Time_Add_def)
  have c: "timer_may_post 600 500 600"
    by (rule timer_due_at_once) simp
  have d: "update_exec (io_run ExecOk 600) = ExecOk" by (simp add: io_run_simps)
  have "loop_body (io_run ExecOk 600) ''repo1'' ?p =
     ?p\<lparr>mirrorer := (mirrorer ?p)\<lparr>state := (state (mirrorer ?p))
          \<lparr>Mirrors := Some ([''repo1'' \<mapsto> ?mi](''repo1'' \<mapsto>
                ?mi\<lparr>LastUpdate := now (io_run ExecOk 600)\<rparr>))\<rparr>\<rparr>,
       disk := fst (updateDb (save_io (io_run ExecOk 600))
          ((mirrorer ?p)\<lparr>state := (state (mirrorer ?p))
            \<lparr>Mirrors := Some ([''repo1'' \<mapsto> ?mi](''repo1'' \<mapsto>
                ?mi\<lparr>LastUpdate := now (io_run ExecOk 600)\<rparr>))\<rparr>\<rparr>) (disk ?p)),
       commands := commands ?p @ [GitRemoteUpdate (StoragePath (state (mirrorer ?p))) ''repo1''],
       sleepers := sleepers ?p @ [(''repo1'',
          Time_Add (now (io_run ExecOk 600)) (UpdateDelta (state (mirrorer ?p))))]\<rparr>"
    by (rule loop_body_succeeds) (simp_all add: p_repo1_simps(1,2,6) io_run_simps)
  then have "map_index (Mirrors (state (mirrorer (loop_body (io_run ExecOk 600) ''repo1'' ?p))))
        ''repo1'' = \<lparr>Url = repo1_url, LastUpdate = 600, State = MirrorReady\<rparr>"
    by (simp add: map_index_def map_lookup_def io_run_simps)
  then have e: "LastUpdate (map_index (Mirrors (state (mirrorer
         (loop_body (io_run ExecOk 600) ''repo1'' ?p)))) ''repo1'')
     < LastUpdate (map_index (Mirrors (state (mirrorer ?p))) ''repo1'')"
    by (simp add: old)
  show ?thesis by (intro conjI a b c d e)
qed

text \<open>
  C6, amended: for a Ready mirror and an update interval greater than zero, the timer
  that the arm phase starts sleeps until \<open>lastUpdate + updateInterval\<close>; when that
  deadline is at most \<open>2^63 - 1\<close> ns after the timer reads the clock (beyond that
  \<^verbatim>\<open>time.Until\<close> saturates), the timer posts no earlier than the deadline, and at once
  when the deadline has passed; a refresh that then succeeds sets the last update to
  the time of the refresh, which is later than the old one, and starts exactly one
  timer, for the new \<open>lastUpdate + updateInterval\<close>.
\<close>

theorem refresh_cycle:
  assumes "crashed p = None"
    and "Mirrors (state (mirrorer p)) = Some mp" and "mp mirrorName = Some mirror"
    and "State mirror = MirrorReady"
    and "0 < sint (UpdateDelta (state (mirrorer p)))"
    and "deadline = LastUpdate mirror + sint (UpdateDelta (state (mirrorer p)))"
    and "deadline - start \<le> 2 ^ 63 - 1"
    and "timer_may_post start deadline posted"
    and "posted \<le> now io" and "update_exec io = ExecOk"
  shows "sleepers (arm_body mirrorName p) = sleepers p @ [(mirrorName, deadline)]
     \<and> deadline \<le> posted
     \<and> (deadline \<le> start \<longrightarrow> timer_may_post start deadline start)
     \<and> map_lookup (Mirrors (state (mirrorer (loop_body io mirrorName p)))) mirrorName
         = Some (mirror\<lparr>LastUpdate := now io\<rparr>)
     \<and> LastUpdate mirror < now io
     \<and> sleepers (loop_body io mirrorName p)
         = sleepers p @ [(mirrorName, now io + sint (UpdateDelta (state (mirrorer p))))]"
proof -
  have a: "sleepers (arm_body mirrorName p) = sleepers p @ [(mirrorName, deadline)]"
    using arm_body_Ready[OF assms(1-4)] assms(6) by (simp add: Time_Add_def)
  have b: "deadline \<le> posted"
    using timer_not_early[OF assms(7,8)] by simp
  have c: "deadline \<le> start \<longrightarrow> timer_may_post start deadline start"
    using timer_due_at_once by simp
  note L = loop_body_succeeds[OF assms(1-4) assms(10)]
  have d: "map_lookup (Mirrors (state (mirrorer (loop_body io mirrorName p)))) mirrorName
         = Some (mirror\<lparr>LastUpdate := now io\<rparr>)"
    unfolding L by (simp add: map_lookup_def)
  have e: "LastUpdate mirror < now io"
    using b assms(5,6,9) by simp
  have f: "sleepers (loop_body io mirrorName p)
         = sleepers p @ [(mirrorName, now io + sint (UpdateDelta (state (mirrorer p))))]"
    unfolding L by (simp add: Time_Add_def)
  show ?thesis by (intro conjI a b c d e f)
qed

theorem refresh_cycle_witness:
  "0 < sint (UpdateDelta (state (mirrorer (p_repo1 MirrorReady 1000 (5 * Minute)))))
   \<and> timer_may_post 2000 300000001000 300000001000
   \<and> sleepers (arm_body ''repo1'' (p_repo1 MirrorReady 1000 (5 * Minute)))
       = [(''repo1'', 300000001000)]
   \<and> map_lookup (Mirrors (state (mirrorer
         (loop_body (io_run ExecOk 300000001005) ''repo1'' (p_repo1 MirrorReady 1000 (5 * Minute))))))
         ''repo1''
       = Some \<lparr>Url = repo1_url, LastUpdate = 300000001005, State = MirrorReady\<rparr>
   \<and> sleepers (loop_body (io_run ExecOk 300000001005) ''repo1'' (p_repo1 MirrorReady 1000 (5 * Minute)))
       = [(''repo1'', 600000001005)]"
proof -
  let ?p = "p_repo1 MirrorReady 1000 (5 * Minute)"
  let ?mi = "\<lparr>Url = repo1_url, LastUpdate = 1000, State = MirrorReady\<rparr>"
  let ?io = "io_run ExecOk 300000001005"
  have five: "sint (5 * Minute) = 300000000000" by (simp add: Minute_def)
  have h1: "crashed ?p = None" by (simp add: p_repo1_simps(1))
  have h2: "Mirrors (state (mirrorer ?p)) = Some [''repo1'' \<mapsto> ?mi]"
    by (simp add: p_repo1_simps(2,6))
  have h3: "[''repo1'' \<mapsto> ?mi] ''repo1'' = Some ?mi" by simp
  have h4: "State ?mi = MirrorReady" by simp
  have h5: "0 < sint (UpdateDelta (state (mirrorer ?p)))"
    by (simp add: p_repo1_simps(2,8) five)
  have h6: "300000001000 = LastUpdate ?mi + sint (UpdateDelta (state (mirrorer ?p)))"
    by (simp add: p_repo1_simps(2,8) five)
  have h7: "(300000001000 :: int) - 2000 \<le> 2 ^ 63 - 1" by simp
  have h8: "timer_may_post 2000 300000001000 300000001000"
    by (simp add: timer_may_post_def Sleep_returns_def time_Until_def sint_Time_Sub)
  have h9: "300000001000 \<le> now ?io" by (simp add: io_run_simps)
  have h10: "update_exec ?io = ExecOk" by (simp add: io_run_simps)
  note T = refresh_cycle[OF h1 h2 h3 h4 h5 h6 h7 h8 h9 h10]
  have sl: "sleepers ?p = []" by (simp add: p_repo1_simps(4))
  have d: "sint (UpdateDelta (state (mirrorer ?p))) = 300000000000"
    by (simp add: p_repo1_simps(2,8) five)
  have a: "sleepers (arm_body ''repo1'' ?p) = [(''repo1'', 300000001000)]"
    using T[THEN conjunct1] by (simp add: sl)
  have b: "map_lookup (Mirrors (state (mirrorer (loop_body ?io ''repo1'' ?p)))) ''repo1''
       = Some \<lparr>Url = repo1_url, LastUpdate = 300000001005, State = MirrorReady\<rparr>"
    using T[THEN conjunct2, THEN conjunct2, THEN conjunct2, THEN conjunct1]
    by (simp add: io_run_simps)
  have c: "sleepers (loop_body ?io ''repo1'' ?p) = [(''repo1'', 600000001005)]"
    using T[THEN conjunct2, THEN conjunct2, THEN conjunct2, THEN conjunct2, THEN conjunct2]
    by (simp add: sl d io_run_simps)
  show ?thesis by (intro conjI h5 h8 a b c)
qed

subsection \<open>Who writes the registry\<close>

lemma AddMirrorHandler_new:
  assumes "Has q ''name''" and "Has q ''url''"
    and "Mirrors (state m) = Some mp" and "mp (Get q ''name'') = None"
  shows "fst (snd (AddMirrorHandler t io q m d)) =
           m\<lparr>state := (state m)\<lparr>Mirrors := Some (mp(Get q ''name'' \<mapsto>
                \<lparr>Url = Get q ''url'', LastUpdate = t, State = MirrorFresh\<rparr>))\<rparr>\<rparr>"
  using assms
  by (auto simp: AddMirrorHandler_def checkArgs_ok map_lookup_def map_assign_def Let_def
      split: prod.splits option.splits)

lemma do_step_Serve_mirrorer:
  "crashed (run s) = None \<Longrightarrow>
     mirrorer (run (do_step (Serve t io q) s))
       = fst (snd (AddMirrorHandler t io q (mirrorer (run s)) (disk (run s))))"
  by (simp add: do_step_def split: prod.splits)

lemma do_step_Serve_channel: "channel (do_step (Serve t io q) s) = channel s"
  by (simp add: do_step_def split: prod.splits)

text \<open>
  C7 fails on the code: a request for a new name is served in the goroutine of the
  handler, and that step writes the entry into the map of the mirrorer itself;
  nothing is put on the channel, before or after, for \<^verbatim>\<open>Run\<close> to apply.
\<close>

theorem handler_writes_registry:
  "goroutine_of (Serve 9 io_ok q_repo1) = HandlerGoroutine
   \<and> map_lookup (Mirrors (state (mirrorer (run s_empty)))) ''repo1'' = None
   \<and> map_lookup (Mirrors (state (mirrorer (run (do_step (Serve 9 io_ok q_repo1) s_empty)))))
        ''repo1''
       = Some \<lparr>Url = repo1_url, LastUpdate = 9, State = MirrorFresh\<rparr>
   \<and> channel s_empty = []
   \<and> channel (do_step (Serve 9 io_ok q_repo1) s_empty) = []"
proof -
  have g: "goroutine_of (Serve 9 io_ok q_repo1) = HandlerGoroutine"
    by (simp add: goroutine_of_def)
  have m: "mirrorer (run s_empty) = m_empty" and c: "crashed (run s_empty) = None"
    and ch: "channel s_empty = []"
    by (simp_all add: s_empty_def)
  have ms: "Mirrors (state m_empty) = Some Map.empty"
    by (simp add: m_empty_def NewState_def)
  have before: "map_lookup (Mirrors (state (mirrorer (run s_empty)))) ''repo1'' = None"
    by (simp add: m ms map_lookup_def)
  have "fst (snd (AddMirrorHandler 9 io_ok q_repo1 m_empty (disk (run s_empty)))) =
           m_empty\<lparr>state := (state m_empty)\<lparr>Mirrors := Some (Map.empty(Get q_repo1 ''name'' \<mapsto>
                \<lparr>Url = Get q_repo1 ''url'', LastUpdate = 9, State = MirrorFresh\<rparr>))\<rparr>\<rparr>"
    by (rule AddMirrorHandler_new[OF q_repo1_args(1,2) ms]) simp
  then have after: "map_lookup (Mirrors (state (mirrorer (run (do_step (Serve 9 io_ok q_repo1) s_empty)))))
        ''repo1'' = Some \<lparr>Url = repo1_url, LastUpdate = 9, State = MirrorFresh\<rparr>"
    by (simp add: do_step_Serve_mirrorer[OF c] m map_lookup_def q_repo1_args)
  have ch': "channel (do_step (Serve 9 io_ok q_repo1) s_empty) = []"
    by (simp add: do_step_Serve_channel ch)
  show ?thesis by (intro conjI g before after ch ch')
qed

end
